theory Spec2Isabelle
  imports Complex_Main "HOL-Library.Sublist"
begin

section \<open>Chart image viewer: filtering, navigation and zoom\<close>

text \<open>
  The viewer component \<^verbatim>\<open>UniversalChartViewer.tsx\<close> keeps a list of stored chart images
  joined with their trade context, a type filter, a symbol search string, the index of the
  image on display, a zoom factor and a pan position. Each piece of React state becomes a
  field of a record or an argument, and each callback a function from the old state to the
  new one: a callback runs on the state of the latest render, and the component is rendered
  again before the next one runs.
\<close>

subsection \<open>Data\<close>

datatype image_type = BeforeEntry | AfterExit

text \<open>\<^verbatim>\<open>type FilterType = 'all' | 'beforeEntry' | 'afterExit'\<close>\<close>

datatype filter_type = F_all | F_beforeEntry | F_afterExit

text \<open>
  \<^verbatim>\<open>ChartImageBlob\<close>, the record of the blob table. Its fields carry the prefix
  \<open>blob_\<close>, since \<open>id\<close> and \<open>size\<close> are constants of HOL and the descriptor
  \<^verbatim>\<open>ChartImage\<close> has fields of the same names. Sizes and dates are JavaScript numbers
  holding integers (bytes, milliseconds); the binary payload is a list of bytes.
\<close>

record chart_image_blob =
  blob_id :: string
  blob_tradeId :: string
  blob_imageType :: image_type
  blob_filename :: string
  blob_mimeType :: string
  blob_size :: int
  blob_data :: string
  blob_uploadedAt :: int
  blob_compressed :: bool
  blob_originalSize :: "int option"

text \<open>
  \<^verbatim>\<open>interface ChartImageWithContext extends ChartImageBlob\<close>: the optional fields are
  \<open>None\<close> when undefined.
\<close>

record chart_image_with_context = chart_image_blob +
  tradeName :: "string option"
  tradeDate :: "string option"
  tradeNo :: "int option"
  dataUrl :: "string option"

subsection \<open>Strings\<close>

text \<open>
  \<^verbatim>\<open>String.prototype.toLowerCase\<close> on the ASCII letters (symbols of trades are ASCII; the
  case mapping of other code points is not modelled), and \<^verbatim>\<open>String.prototype.includes\<close>:
  the argument occurs as a contiguous run of characters, the empty string everywhere.
\<close>

definition toLowerChar :: "char \<Rightarrow> char" where
  "toLowerChar c =
     (case map_of (zip ''ABCDEFGHIJKLMNOPQRSTUVWXYZ'' ''abcdefghijklmnopqrstuvwxyz'') c of
        None \<Rightarrow> c
      | Some l \<Rightarrow> l)"

definition toLowerCase :: "string \<Rightarrow> string" where
  "toLowerCase s = map toLowerChar s"

fun includes_str :: "string \<Rightarrow> string \<Rightarrow> bool" where
  "includes_str [] sub = (sub = [])"
| "includes_str (c # cs) sub = (prefix sub (c # cs) \<or> includes_str cs sub)"

subsection \<open>The filtered list\<close>

text \<open>The comparison \<^verbatim>\<open>img.imageType === filter\<close> of the two string enumerations.\<close>

fun imageType_eq :: "image_type \<Rightarrow> filter_type \<Rightarrow> bool" where
  "imageType_eq BeforeEntry F_beforeEntry = True"
| "imageType_eq AfterExit F_afterExit = True"
| "imageType_eq _ _ = False"

text \<open>
  The callback of the symbol filter:
  \<^verbatim>\<open>img.tradeName?.toLowerCase().includes(symbolSearch.toLowerCase())\<close>. An undefined
  trade name makes the optional chain undefined, which \<^verbatim>\<open>filter\<close> reads as false.
\<close>

definition symbolMatches :: "string \<Rightarrow> ('a chart_image_with_context_scheme) \<Rightarrow> bool" where
  "symbolMatches symbolSearch img =
     (case tradeName img of
        None \<Rightarrow> False
      | Some n \<Rightarrow> includes_str (toLowerCase n) (toLowerCase symbolSearch))"

text \<open>
  \<^verbatim>\<open>filteredImages\<close> (the body of the \<^verbatim>\<open>useMemo\<close>): the type filter is applied unless
  the filter is \<^verbatim>\<open>'all'\<close>, then the symbol filter unless the search string is empty (the
  only falsy string).
\<close>

definition filteredImages ::
  "('a chart_image_with_context_scheme) list \<Rightarrow> filter_type \<Rightarrow> string
     \<Rightarrow> ('a chart_image_with_context_scheme) list" where
  "filteredImages allImages flt symbolSearch =
     (let images = allImages;
          images = (if flt \<noteq> F_all
                    then filter (\<lambda>img. imageType_eq (blob_imageType img) flt) images
                    else images);
          images = (if symbolSearch \<noteq> []
                    then filter (symbolMatches symbolSearch) images
                    else images)
      in images)"

subsection \<open>Navigation and zoom\<close>

text \<open>
  The state the navigation and zoom callbacks write: \<^verbatim>\<open>currentIndex\<close>, \<^verbatim>\<open>zoom\<close> and
  \<^verbatim>\<open>position\<close>. The table of preloaded data URLs, which \<^verbatim>\<open>preloadAdjacentImages\<close>
  fills, influences none of them and is left out.

  \<^verbatim>\<open>zoom\<close> is a JavaScript number. The constants 1.5, 5, 0.5 and 1 are exact in binary
  floating point, \<^verbatim>\<open>Math.min\<close> and \<^verbatim>\<open>Math.max\<close> are exact, and the product and the
  quotient are the exact results rounded: the rounding is the parameter \<open>rnd\<close> of the
  two zoom steps (the identity gives exact arithmetic).
\<close>

record viewer_state =
  currentIndex :: int
  zoom :: real
  position :: "real \<times> real"

definition initial_viewer :: viewer_state where
  "initial_viewer = \<lparr>currentIndex = 0, zoom = 1, position = (0, 0)\<rparr>"

definition resetZoom :: "viewer_state \<Rightarrow> viewer_state" where
  "resetZoom s = s\<lparr>zoom := 1, position := (0, 0)\<rparr>"

definition handleZoomIn :: "(real \<Rightarrow> real) \<Rightarrow> viewer_state \<Rightarrow> viewer_state" where
  "handleZoomIn rnd s = s\<lparr>zoom := min (rnd (zoom s * (3 / 2))) 5\<rparr>"

definition handleZoomOut :: "(real \<Rightarrow> real) \<Rightarrow> viewer_state \<Rightarrow> viewer_state" where
  "handleZoomOut rnd s = s\<lparr>zoom := max (rnd (zoom s / (3 / 2))) (1 / 2)\<rparr>"

text \<open>
  \<^verbatim>\<open>navigateNext\<close> and \<^verbatim>\<open>navigatePrevious\<close>, over the filtered list. Outside the guard
  nothing is written.
\<close>

definition navigateNext :: "'img list \<Rightarrow> viewer_state \<Rightarrow> viewer_state" where
  "navigateNext filtered s =
     (if currentIndex s < int (length filtered) - 1
      then resetZoom (s\<lparr>currentIndex := currentIndex s + 1\<rparr>)
      else s)"

definition navigatePrevious :: "'img list \<Rightarrow> viewer_state \<Rightarrow> viewer_state" where
  "navigatePrevious filtered s =
     (if currentIndex s > 0
      then resetZoom (s\<lparr>currentIndex := currentIndex s - 1\<rparr>)
      else s)"

datatype viewer_op = NavigateNext | NavigatePrevious | ZoomIn | ZoomOut | ResetZoom

fun viewer_step :: "(real \<Rightarrow> real) \<Rightarrow> 'img list \<Rightarrow> viewer_state \<Rightarrow> viewer_op \<Rightarrow> viewer_state" where
  "viewer_step rnd filtered s NavigateNext = navigateNext filtered s"
| "viewer_step rnd filtered s NavigatePrevious = navigatePrevious filtered s"
| "viewer_step rnd filtered s ZoomIn = handleZoomIn rnd s"
| "viewer_step rnd filtered s ZoomOut = handleZoomOut rnd s"
| "viewer_step rnd filtered s ResetZoom = resetZoom s"

definition viewer_run :: "(real \<Rightarrow> real) \<Rightarrow> 'img list \<Rightarrow> viewer_state \<Rightarrow> viewer_op list \<Rightarrow> viewer_state" where
  "viewer_run rnd filtered s ops = foldl (viewer_step rnd filtered) s ops"

text \<open>A rounding that is monotone and leaves the two bounds, which are representable, alone.\<close>

definition rounding :: "(real \<Rightarrow> real) \<Rightarrow> bool" where
  "rounding rnd \<longleftrightarrow> mono rnd \<and> rnd (1 / 2) = 1 / 2 \<and> rnd 5 = 5"

section \<open>Untyped values: the attachment validator\<close>

text \<open>
  \<^verbatim>\<open>validateChartAttachments\<close> takes a value of type \<^verbatim>\<open>any\<close>, so its model needs the
  values of JavaScript as far as the validator can tell them apart: the primitive kinds, and
  objects as a class tag (for \<^verbatim>\<open>instanceof Date\<close>) with a table of own properties.
  Functions are apart because \<^verbatim>\<open>typeof\<close> tells them apart. Accessors, proxies and inherited
  properties are not modelled.
\<close>

datatype js_class = PlainObject | DateObject | ArrayObject

datatype js_value =
    JUndefined
  | JNull
  | JBoolean bool
  | JNumber real
  | JNaN
  | JInfinity bool
  | JBigInt int
  | JString string
  | JSymbol string
  | JFunction
  | JObject js_class "(string \<times> js_value) list"

fun typeof :: "js_value \<Rightarrow> string" where
  "typeof JUndefined = ''undefined''"
| "typeof JNull = ''object''"
| "typeof (JBoolean _) = ''boolean''"
| "typeof (JNumber _) = ''number''"
| "typeof JNaN = ''number''"
| "typeof (JInfinity _) = ''number''"
| "typeof (JBigInt _) = ''bigint''"
| "typeof (JString _) = ''string''"
| "typeof (JSymbol _) = ''symbol''"
| "typeof JFunction = ''function''"
| "typeof (JObject _ _) = ''object''"

text \<open>Truthiness: the falsy values are undefined, null, false, 0, NaN, 0n and the empty string.\<close>

fun truthy :: "js_value \<Rightarrow> bool" where
  "truthy JUndefined = False"
| "truthy JNull = False"
| "truthy (JBoolean b) = b"
| "truthy (JNumber x) = (x \<noteq> 0)"
| "truthy JNaN = False"
| "truthy (JInfinity _) = True"
| "truthy (JBigInt n) = (n \<noteq> 0)"
| "truthy (JString s) = (s \<noteq> [])"
| "truthy (JSymbol _) = True"
| "truthy JFunction = True"
| "truthy (JObject _ _) = True"

text \<open>
  Reading a property. The validator reads properties of values it has found to be non-null
  objects only; a missing property reads as undefined.
\<close>

fun get_prop :: "js_value \<Rightarrow> string \<Rightarrow> js_value" where
  "get_prop (JObject _ props) k = (case map_of props k of None \<Rightarrow> JUndefined | Some v \<Rightarrow> v)"
| "get_prop _ k = JUndefined"

fun instanceof_Date :: "js_value \<Rightarrow> bool" where
  "instanceof_Date (JObject DateObject _) = True"
| "instanceof_Date _ = False"

text \<open>
  \<^verbatim>\<open>validateChartImage\<close>. The chain of \<^verbatim>\<open>&&\<close> yields its first falsy operand or its last
  one, and the only caller negates it, so the model returns its truthiness. The allow-list
  \<^verbatim>\<open>CHART_IMAGE_CONFIG.ALLOWED_TYPES\<close> is declared outside the files at hand and is a
  parameter; \<^verbatim>\<open>Array.prototype.includes\<close> compares with it by equality.
\<close>

definition validateChartImage :: "string list \<Rightarrow> js_value \<Rightarrow> bool" where
  "validateChartImage ALLOWED_TYPES chartImage \<longleftrightarrow>
     truthy chartImage \<and>
     typeof chartImage = ''object'' \<and>
     typeof (get_prop chartImage ''id'') = ''string'' \<and>
     typeof (get_prop chartImage ''filename'') = ''string'' \<and>
     typeof (get_prop chartImage ''mimeType'') = ''string'' \<and>
     typeof (get_prop chartImage ''size'') = ''number'' \<and>
     instanceof_Date (get_prop chartImage ''uploadedAt'') \<and>
     (get_prop chartImage ''storage'' = JString ''inline'' \<or>
      get_prop chartImage ''storage'' = JString ''blob'') \<and>
     get_prop chartImage ''mimeType'' \<in> set (map JString ALLOWED_TYPES)"

definition validateChartAttachments :: "string list \<Rightarrow> js_value \<Rightarrow> bool" where
  "validateChartAttachments ALLOWED_TYPES chartAttachments =
     (if \<not> truthy chartAttachments \<or> typeof chartAttachments \<noteq> ''object'' then False
      else if truthy (get_prop chartAttachments ''beforeEntry'') \<and>
              \<not> validateChartImage ALLOWED_TYPES (get_prop chartAttachments ''beforeEntry'')
           then False
      else if truthy (get_prop chartAttachments ''afterExit'') \<and>
              \<not> validateChartImage ALLOWED_TYPES (get_prop chartAttachments ''afterExit'')
           then False
      else True)"

section \<open>The chart image service\<close>

subsection \<open>Descriptors, trades and files\<close>

datatype storage = Inline | Blob

text \<open>
  \<^verbatim>\<open>ChartImage\<close>, the descriptor kept in the trade record. The fields that the blob
  record has too carry the prefix \<open>img_\<close>; optional fields are \<open>None\<close> when undefined.
  The declarations of \<^verbatim>\<open>../types/trade\<close> are not among the files at hand: the fields are
  those that the service and the components read and write, and of a trade only the id is
  read.
\<close>

record chart_image =
  img_id :: string
  img_filename :: string
  img_mimeType :: string
  img_size :: int
  img_uploadedAt :: int
  storage :: storage
  blobId :: "string option"
  compressed :: "bool option"
  originalSize :: "int option"
  img_data :: "string option"

record trade =
  trade_id :: string

text \<open>A browser \<^verbatim>\<open>File\<close>: its \<^verbatim>\<open>size\<close> is the number of its bytes.\<close>

record js_file =
  file_name :: string
  file_type :: string
  file_bytes :: string

definition file_size :: "js_file \<Rightarrow> int" where
  "file_size f = int (length (file_bytes f))"

text \<open>A thrown value: an \<^verbatim>\<open>Error\<close> with its message, or anything else.\<close>

datatype js_exn = Error string | Thrown

subsection \<open>The persistence gateway\<close>

text \<open>
  Modelled from the spec: the class \<^verbatim>\<open>DatabaseService\<close> of \<^verbatim>\<open>../db/database\<close> is not
  among the files at hand. The spec describes it as a persistence gateway exposing save, get
  and delete of a blob by id, delete of all blobs of a trade, and the lists of all blobs and
  of all trades, over a local store. The store is the list of blob records and the list of
  trades; every call is recorded in \<open>requests\<close>. The service tests the boolean that save
  and delete resolve to and wraps every call in \<^verbatim>\<open>try\<close>, so a call can end in three ways,
  which the parameter \<open>gateway\<close> chooses: it resolves to true and has taken effect, it
  resolves to false and has not, or it throws and has not. The two lists are the content of
  the store, unless the call throws.
\<close>

datatype db_request =
    SaveChartImageBlob chart_image_blob
  | GetChartImageBlob string
  | DeleteChartImageBlob string
  | DeleteTradeChartImageBlobs string
  | GetAllChartImageBlobs
  | GetAllTrades

record database =
  blobs :: "chart_image_blob list"
  trades :: "trade list"
  requests :: "db_request list"

record gateway =
  save_result :: "chart_image_blob \<Rightarrow> js_exn + bool"
  delete_result :: "string \<Rightarrow> js_exn + bool"
  delete_trade_result :: "string \<Rightarrow> js_exn + bool"
  list_blobs_error :: "js_exn option"
  list_trades_error :: "js_exn option"

text \<open>Modelled from the spec: every call of the gateway is noted, in order.\<close>

definition record_request :: "db_request \<Rightarrow> database \<Rightarrow> database" where
  "record_request r db = db\<lparr>requests := requests db @ [r]\<rparr>"

text \<open>
  Modelled from the spec: \<^verbatim>\<open>DatabaseService.saveChartImageBlob\<close>, the save of a blob
  under its id. A blob saved takes the place of the one with the same id.
\<close>

definition saveChartImageBlob ::
  "gateway \<Rightarrow> chart_image_blob \<Rightarrow> database \<Rightarrow> (js_exn + bool) \<times> database" where
  "saveChartImageBlob g b db =
     (let db1 = record_request (SaveChartImageBlob b) db in
      case save_result g b of
        Inr True \<Rightarrow> (Inr True, db1\<lparr>blobs := filter (\<lambda>x. blob_id x \<noteq> blob_id b) (blobs db1) @ [b]\<rparr>)
      | Inr False \<Rightarrow> (Inr False, db1)
      | Inl e \<Rightarrow> (Inl e, db1))"

text \<open>Modelled from the spec: \<^verbatim>\<open>DatabaseService.getChartImageBlob\<close>, the blob of an id if there is one.\<close>

definition getChartImageBlob :: "string \<Rightarrow> database \<Rightarrow> chart_image_blob option \<times> database" where
  "getChartImageBlob bid db =
     (find (\<lambda>x. blob_id x = bid) (blobs db), record_request (GetChartImageBlob bid) db)"

text \<open>Modelled from the spec: \<^verbatim>\<open>DatabaseService.deleteChartImageBlob\<close>, the delete of the blob of an id.\<close>

definition deleteChartImageBlob ::
  "gateway \<Rightarrow> string \<Rightarrow> database \<Rightarrow> (js_exn + bool) \<times> database" where
  "deleteChartImageBlob g bid db =
     (let db1 = record_request (DeleteChartImageBlob bid) db in
      case delete_result g bid of
        Inr True \<Rightarrow> (Inr True, db1\<lparr>blobs := filter (\<lambda>x. blob_id x \<noteq> bid) (blobs db1)\<rparr>)
      | Inr False \<Rightarrow> (Inr False, db1)
      | Inl e \<Rightarrow> (Inl e, db1))"

text \<open>
  Modelled from the spec: \<^verbatim>\<open>DatabaseService.deleteTradeChartImageBlobs\<close>, the delete of all
  blobs of a trade.
\<close>

definition deleteTradeChartImageBlobs ::
  "gateway \<Rightarrow> string \<Rightarrow> database \<Rightarrow> (js_exn + bool) \<times> database" where
  "deleteTradeChartImageBlobs g tid db =
     (let db1 = record_request (DeleteTradeChartImageBlobs tid) db in
      case delete_trade_result g tid of
        Inr True \<Rightarrow> (Inr True, db1\<lparr>blobs := filter (\<lambda>x. blob_tradeId x \<noteq> tid) (blobs db1)\<rparr>)
      | Inr False \<Rightarrow> (Inr False, db1)
      | Inl e \<Rightarrow> (Inl e, db1))"

text \<open>
  Modelled from the spec: \<^verbatim>\<open>DatabaseService.getAllChartImageBlobs\<close>, the list of all blobs;
  it returns the list or throws.
\<close>

definition getAllChartImageBlobs ::
  "gateway \<Rightarrow> database \<Rightarrow> (js_exn + chart_image_blob list) \<times> database" where
  "getAllChartImageBlobs g db =
     (let db1 = record_request GetAllChartImageBlobs db in
      case list_blobs_error g of
        None \<Rightarrow> (Inr (blobs db1), db1)
      | Some e \<Rightarrow> (Inl e, db1))"

text \<open>
  Modelled from the spec: \<^verbatim>\<open>DatabaseService.getAllTrades\<close>, the list of all trades; it
  returns the list or throws.
\<close>

definition getAllTrades :: "gateway \<Rightarrow> database \<Rightarrow> (js_exn + trade list) \<times> database" where
  "getAllTrades g db =
     (let db1 = record_request GetAllTrades db in
      case list_trades_error g of
        None \<Rightarrow> (Inr (trades db1), db1)
      | Some e \<Rightarrow> (Inl e, db1))"

subsection \<open>Creating a descriptor\<close>

text \<open>
  Modelled from the spec: \<^verbatim>\<open>createChartImage\<close> and \<^verbatim>\<open>CHART_IMAGE_CONFIG\<close> of
  \<^verbatim>\<open>../utils/chartImageUtils\<close> and \<^verbatim>\<open>generateId\<close> of \<^verbatim>\<open>../utils/helpers\<close> are not among
  the files at hand. The spec: attach "validates MIME type/size against a fixed
  allow-list/threshold, optionally compresses, chooses inline (small payload embedded
  directly) or blob (separate record) storage"; a payload under the size threshold is stored
  inline, one above it as a blob with a blob id. The allow-list, the largest file accepted,
  the threshold, the compression, the two generated ids and the clock are parameters. What
  happens to a payload of exactly the threshold the spec does not say: that is a parameter
  too.
\<close>

record chart_image_config =
  ALLOWED_TYPES :: "string list"
  MAX_FILE_SIZE :: int
  INLINE_THRESHOLD :: int
  storage_at_threshold :: storage
  compress :: "string \<Rightarrow> string"
  new_image_id :: string
  new_blob_id :: string
  now :: int

text \<open>Modelled from the spec: the validation of the type and the size of a file.\<close>

definition valid_file :: "chart_image_config \<Rightarrow> js_file \<Rightarrow> bool" where
  "valid_file cfg f \<longleftrightarrow> file_type f \<in> set (ALLOWED_TYPES cfg) \<and> file_size f \<le> MAX_FILE_SIZE cfg"

text \<open>Modelled from the spec: the bytes to store, compressed if asked.\<close>

definition payload :: "chart_image_config \<Rightarrow> js_file \<Rightarrow> bool \<Rightarrow> string" where
  "payload cfg f shouldCompress = (if shouldCompress then compress cfg (file_bytes f) else file_bytes f)"

text \<open>Modelled from the spec: inline under the threshold, blob above it.\<close>

definition choose_storage :: "chart_image_config \<Rightarrow> int \<Rightarrow> storage" where
  "choose_storage cfg n =
     (if n < INLINE_THRESHOLD cfg then Inline
      else if INLINE_THRESHOLD cfg < n then Blob
      else storage_at_threshold cfg)"

text \<open>
  Modelled from the spec: \<^verbatim>\<open>createChartImage\<close>. It throws for a file that is not valid and
  otherwise returns the descriptor, with a blob id exactly when the storage is blob.
\<close>

definition createChartImage :: "chart_image_config \<Rightarrow> js_file \<Rightarrow> bool \<Rightarrow> js_exn + chart_image" where
  "createChartImage cfg f shouldCompress =
     (if \<not> valid_file cfg f then Inl (Error ''Invalid image file'')
      else
        let bytes = payload cfg f shouldCompress;
            st = choose_storage cfg (int (length bytes))
        in Inr \<lparr>img_id = new_image_id cfg,
                img_filename = file_name f,
                img_mimeType = file_type f,
                img_size = int (length bytes),
                img_uploadedAt = now cfg,
                storage = st,
                blobId = (if st = Blob then Some (new_blob_id cfg) else None),
                compressed = Some shouldCompress,
                originalSize = Some (file_size f),
                img_data = (if st = Inline then Some bytes else None)\<rparr>)"

subsection \<open>The service\<close>

text \<open>
  Each method of \<^verbatim>\<open>ChartImageService\<close> takes the gateway and the database and returns its
  result with the database after it. A \<^verbatim>\<open>try\<close> block is the case distinction on what its
  calls return, the \<^verbatim>\<open>catch\<close> block the branches of \<open>Inl\<close>. Logging is left out.
\<close>

record attach_result =
  success :: bool
  chartImage :: "chart_image option"
  error :: "string option"

text \<open>The message of the \<^verbatim>\<open>catch\<close> block: \<^verbatim>\<open>error instanceof Error ? error.message : 'Unknown error'\<close>.\<close>

fun error_message :: "js_exn \<Rightarrow> string" where
  "error_message (Error m) = m"
| "error_message Thrown = ''Unknown error''"

definition attach_failed :: "string \<Rightarrow> attach_result" where
  "attach_failed m = \<lparr>success = False, chartImage = None, error = Some m\<rparr>"

text \<open>The test \<^verbatim>\<open>chartImage.storage === 'blob' && chartImage.blobId\<close>: the id is defined and not empty.\<close>

definition uses_blob :: "chart_image \<Rightarrow> string option" where
  "uses_blob ci =
     (case blobId ci of
        None \<Rightarrow> None
      | Some bid \<Rightarrow> if storage ci = Blob \<and> bid \<noteq> [] then Some bid else None)"

definition attachChartImage ::
  "gateway \<Rightarrow> chart_image_config \<Rightarrow> string \<Rightarrow> image_type \<Rightarrow> js_file \<Rightarrow> bool \<Rightarrow> database
     \<Rightarrow> attach_result \<times> database" where
  "attachChartImage g cfg tradeId imageType f shouldCompress db =
     (case createChartImage cfg f shouldCompress of
        Inl e \<Rightarrow> (attach_failed (error_message e), db)
      | Inr ci \<Rightarrow>
          (case uses_blob ci of
             Some bid \<Rightarrow>
               (let imageBlob = \<lparr>blob_id = bid,
                                 blob_tradeId = tradeId,
                                 blob_imageType = imageType,
                                 blob_filename = img_filename ci,
                                 blob_mimeType = img_mimeType ci,
                                 blob_size = img_size ci,
                                 blob_data = file_bytes f,
                                 blob_uploadedAt = img_uploadedAt ci,
                                 blob_compressed = (case compressed ci of Some c \<Rightarrow> c | None \<Rightarrow> False),
                                 blob_originalSize = originalSize ci\<rparr>
                in case saveChartImageBlob g imageBlob db of
                     (Inl e, db1) \<Rightarrow> (attach_failed (error_message e), db1)
                   | (Inr blobSaved, db1) \<Rightarrow>
                       if \<not> blobSaved
                       then (attach_failed ''Failed to save image blob to database'', db1)
                       else (\<lparr>success = True, chartImage = Some ci, error = None\<rparr>, db1))
           | None \<Rightarrow> (\<lparr>success = True, chartImage = Some ci, error = None\<rparr>, db)))"

definition deleteChartImage ::
  "gateway \<Rightarrow> string \<Rightarrow> image_type \<Rightarrow> chart_image \<Rightarrow> database \<Rightarrow> bool \<times> database" where
  "deleteChartImage g tradeId imageType ci db =
     (case uses_blob ci of
        Some bid \<Rightarrow>
          (case deleteChartImageBlob g bid db of
             (Inl e, db1) \<Rightarrow> (False, db1)
           | (Inr blobDeleted, db1) \<Rightarrow> (True, db1))
      | None \<Rightarrow> (True, db))"

definition deleteTradeChartImages :: "gateway \<Rightarrow> string \<Rightarrow> database \<Rightarrow> bool \<times> database" where
  "deleteTradeChartImages g tradeId db =
     (case deleteTradeChartImageBlobs g tradeId db of
        (Inl e, db1) \<Rightarrow> (False, db1)
      | (Inr blobsDeleted, db1) \<Rightarrow> (True, db1))"

record storage_stats =
  totalImages :: nat
  totalSize :: int
  inlineImages :: nat
  inlineSize :: int
  blobImages :: nat
  blobSize :: int

text \<open>
  \<^verbatim>\<open>getStorageStats\<close>. The sizes are JavaScript numbers holding integers, and
  \<^verbatim>\<open>total + blob.size\<close> is the exact sum rounded to a double, which is an integer again:
  the rounding is the parameter \<open>rnd\<close>. The length of the array is exact.
\<close>

definition getStorageStats ::
  "(int \<Rightarrow> int) \<Rightarrow> gateway \<Rightarrow> database \<Rightarrow> storage_stats \<times> database" where
  "getStorageStats rnd g db =
     (case getAllChartImageBlobs g db of
        (Inl e, db1) \<Rightarrow>
          (\<lparr>totalImages = 0, totalSize = 0, inlineImages = 0, inlineSize = 0,
            blobImages = 0, blobSize = 0\<rparr>, db1)
      | (Inr allBlobs, db1) \<Rightarrow>
          (let sizeSum = foldl (\<lambda>total blob. rnd (total + blob_size blob)) 0 allBlobs
           in (\<lparr>totalImages = length allBlobs, totalSize = sizeSum,
                 inlineImages = 0, inlineSize = 0,
                 blobImages = length allBlobs, blobSize = sizeSum\<rparr>, db1)))"

record cleanup_result =
  cleaned :: nat
  errors :: nat

text \<open>
  The loop of \<^verbatim>\<open>cleanupOrphanedBlobs\<close> over the list of blobs read at the start; the
  two counters are the fields of the record it returns. An exception of a delete leaves the
  loop.
\<close>

fun cleanup_loop ::
  "gateway \<Rightarrow> string set \<Rightarrow> chart_image_blob list \<Rightarrow> cleanup_result \<Rightarrow> database
     \<Rightarrow> (js_exn + cleanup_result) \<times> database" where
  "cleanup_loop g tradeIds [] counters db = (Inr counters, db)"
| "cleanup_loop g tradeIds (blob # rest) counters db =
     (if blob_tradeId blob \<notin> tradeIds
      then (case deleteChartImageBlob g (blob_id blob) db of
              (Inl e, db1) \<Rightarrow> (Inl e, db1)
            | (Inr deleted, db1) \<Rightarrow>
                if deleted
                then cleanup_loop g tradeIds rest (counters\<lparr>cleaned := cleaned counters + 1\<rparr>) db1
                else cleanup_loop g tradeIds rest (counters\<lparr>errors := errors counters + 1\<rparr>) db1)
      else cleanup_loop g tradeIds rest counters db)"

definition cleanupOrphanedBlobs :: "gateway \<Rightarrow> database \<Rightarrow> cleanup_result \<times> database" where
  "cleanupOrphanedBlobs g db =
     (case getAllChartImageBlobs g db of
        (Inl e, db1) \<Rightarrow> (\<lparr>cleaned = 0, errors = 1\<rparr>, db1)
      | (Inr allBlobs, db1) \<Rightarrow>
          (case getAllTrades g db1 of
             (Inl e, db2) \<Rightarrow> (\<lparr>cleaned = 0, errors = 1\<rparr>, db2)
           | (Inr allTrades, db2) \<Rightarrow>
               (let tradeIds = set (map trade_id allTrades)
                in case cleanup_loop g tradeIds allBlobs \<lparr>cleaned = 0, errors = 0\<rparr> db2 of
                     (Inl e, db3) \<Rightarrow> (\<lparr>cleaned = 0, errors = 1\<rparr>, db3)
                   | (Inr counters, db3) \<Rightarrow> (counters, db3))))"

subsection \<open>The delete button of the upload component\<close>

text \<open>
  \<^verbatim>\<open>handleDelete\<close> of \<^verbatim>\<open>ChartImageUpload.tsx\<close>. The component owns the error message; the
  image slot belongs to its parent, which clears it when \<^verbatim>\<open>onImageDeleted\<close> is called.
  The result tells whether the callback was called and gives the error message afterwards.
\<close>

record delete_ui =
  onImageDeleted_called :: bool
  error_shown :: "string option"

definition handleDelete ::
  "gateway \<Rightarrow> string \<Rightarrow> image_type \<Rightarrow> chart_image option \<Rightarrow> bool \<Rightarrow> string option \<Rightarrow> database
     \<Rightarrow> delete_ui \<times> database" where
  "handleDelete g tradeId imageType currentImage disabled err db =
     (case currentImage of
        None \<Rightarrow> (\<lparr>onImageDeleted_called = False, error_shown = err\<rparr>, db)
      | Some ci \<Rightarrow>
          if disabled then (\<lparr>onImageDeleted_called = False, error_shown = err\<rparr>, db)
          else
            (case deleteChartImage g tradeId imageType ci db of
               (deleted, db1) \<Rightarrow>
                 if deleted
                 then (\<lparr>onImageDeleted_called = True, error_shown = err\<rparr>, db1)
                 else (\<lparr>onImageDeleted_called = False,
                        error_shown = Some ''Failed to delete image''\<rparr>, db1)))"

section \<open>Notions used by the properties\<close>

text \<open>
  The rounding of doubles on integers: every integer up to \<open>2 ^ 53\<close> in absolute value is
  a double, so a sum within that range is exact.
\<close>

definition exact_integers :: "(int \<Rightarrow> int) \<Rightarrow> bool" where
  "exact_integers rnd \<longleftrightarrow> (\<forall>n. \<bar>n\<bar> \<le> 2 ^ 53 \<longrightarrow> rnd n = n)"

text \<open>
  Such a rounding: exact up to \<open>2 ^ 53\<close>, and beyond to the nearest even integer, a tie
  going to the multiple of 4, as doubles round up to \<open>2 ^ 54\<close>.
\<close>

definition round_to_even :: "int \<Rightarrow> int" where
  "round_to_even n =
     (if \<bar>n\<bar> \<le> 2 ^ 53 then n
      else if n mod 4 = 1 then n - 1
      else if n mod 4 = 3 then n + 1
      else n)"

text \<open>
  A blob is orphaned when its trade id is not the id of any trade in the store: the test
  \<^verbatim>\<open>!tradeIds.has(blob.tradeId)\<close> of the cleanup, on the store it starts from.
\<close>

definition orphaned :: "database \<Rightarrow> chart_image_blob \<Rightarrow> bool" where
  "orphaned db b \<longleftrightarrow> blob_tradeId b \<notin> set (map trade_id (trades db))"

text \<open>The ids of the deletes of single blobs among the recorded requests, in their order.\<close>

fun delete_requests :: "db_request list \<Rightarrow> string list" where
  "delete_requests [] = []"
| "delete_requests (DeleteChartImageBlob bid # rs) = bid # delete_requests rs"
| "delete_requests (_ # rs) = delete_requests rs"

text \<open>
  The blob record that \<^verbatim>\<open>attachChartImage\<close> builds from the descriptor of a file and hands
  to the gateway, written out from the file.
\<close>

definition attached_blob ::
  "chart_image_config \<Rightarrow> string \<Rightarrow> image_type \<Rightarrow> js_file \<Rightarrow> bool \<Rightarrow> chart_image_blob" where
  "attached_blob cfg tradeId imageType f shouldCompress =
     \<lparr>blob_id = new_blob_id cfg,
      blob_tradeId = tradeId,
      blob_imageType = imageType,
      blob_filename = file_name f,
      blob_mimeType = file_type f,
      blob_size = int (length (payload cfg f shouldCompress)),
      blob_data = file_bytes f,
      blob_uploadedAt = now cfg,
      blob_compressed = shouldCompress,
      blob_originalSize = Some (file_size f)\<rparr>"

subsection \<open>Concrete inputs\<close>

definition example_blob :: "string \<Rightarrow> string \<Rightarrow> image_type \<Rightarrow> int \<Rightarrow> chart_image_blob" where
  "example_blob bid tid ty n =
     \<lparr>blob_id = bid, blob_tradeId = tid, blob_imageType = ty, blob_filename = ''chart.png'',
      blob_mimeType = ''image/png'', blob_size = n, blob_data = ''png'', blob_uploadedAt = 0,
      blob_compressed = False, blob_originalSize = None\<rparr>"

text \<open>Three blobs, of which the second and the third belong to trades that are gone.\<close>

definition example_db :: database where
  "example_db =
     \<lparr>blobs = [example_blob ''b1'' ''t1'' BeforeEntry 10,
               example_blob ''b2'' ''t9'' AfterExit 20,
               example_blob ''b3'' ''t8'' BeforeEntry 30],
      trades = [\<lparr>trade_id = ''t1''\<rparr>, \<lparr>trade_id = ''t2''\<rparr>],
      requests = []\<rparr>"

text \<open>Two blobs whose sizes add up to more than \<open>2 ^ 53\<close>.\<close>

definition large_db :: database where
  "large_db =
     \<lparr>blobs = [example_blob ''b1'' ''t1'' BeforeEntry (2 ^ 53),
               example_blob ''b2'' ''t1'' AfterExit 1],
      trades = [\<lparr>trade_id = ''t1''\<rparr>],
      requests = []\<rparr>"

definition reliable_gateway :: gateway where
  "reliable_gateway =
     \<lparr>save_result = (\<lambda>b. Inr True), delete_result = (\<lambda>bid. Inr True),
      delete_trade_result = (\<lambda>tid. Inr True), list_blobs_error = None, list_trades_error = None\<rparr>"

text \<open>A gateway that saves nothing, deletes no trade's blobs and fails to delete the blob \<open>b2\<close>.\<close>

definition failing_gateway :: gateway where
  "failing_gateway =
     \<lparr>save_result = (\<lambda>b. Inr False), delete_result = (\<lambda>bid. Inr (bid \<noteq> ''b2'')),
      delete_trade_result = (\<lambda>tid. Inr False), list_blobs_error = None, list_trades_error = None\<rparr>"

definition example_image ::
  "string \<Rightarrow> string \<Rightarrow> image_type \<Rightarrow> string option \<Rightarrow> chart_image_with_context" where
  "example_image bid tid ty name =
     chart_image_blob.extend (example_blob bid tid ty 10)
       \<lparr>tradeName = name, tradeDate = None, tradeNo = None, dataUrl = None\<rparr>"

definition example_descriptor :: "storage \<Rightarrow> string option \<Rightarrow> chart_image" where
  "example_descriptor st bid =
     \<lparr>img_id = ''i1'', img_filename = ''chart.png'', img_mimeType = ''image/png'', img_size = 20,
      img_uploadedAt = 0, storage = st, blobId = bid, compressed = None, originalSize = None,
      img_data = None\<rparr>"

definition example_config :: chart_image_config where
  "example_config =
     \<lparr>ALLOWED_TYPES = [''image/png'', ''image/jpeg''], MAX_FILE_SIZE = 16, INLINE_THRESHOLD = 4,
      storage_at_threshold = Blob, compress = (\<lambda>bytes. bytes), new_image_id = ''i7'',
      new_blob_id = ''b7'', now = 1000\<rparr>"

definition example_file :: "string \<Rightarrow> js_file" where
  "example_file bytes = \<lparr>file_name = ''chart.png'', file_type = ''image/png'', file_bytes = bytes\<rparr>"

definition example_js_image :: "string \<Rightarrow> js_value" where
  "example_js_image mime =
     JObject PlainObject
       [(''id'', JString ''i1''), (''filename'', JString ''chart.png''), (''mimeType'', JString mime),
        (''size'', JNumber 20), (''uploadedAt'', JObject DateObject []), (''storage'', JString ''blob''),
        (''blobId'', JString ''b1'')]"

section \<open>Auxiliary facts\<close>

subsection \<open>The gateway\<close>

lemma delete_requests_append: "delete_requests (xs @ ys) = delete_requests xs @ delete_requests ys"
  by (induction xs rule: delete_requests.induct) auto

lemma delete_requests_map: "delete_requests (map (\<lambda>b. DeleteChartImageBlob (blob_id b)) xs) = map blob_id xs"
  by (induction xs) auto

lemma deleteChartImageBlob_requests:
  "requests (snd (deleteChartImageBlob g bid db)) = requests db @ [DeleteChartImageBlob bid]"
  by (simp add: deleteChartImageBlob_def record_request_def Let_def split: sum.splits bool.splits)

lemma deleteChartImageBlob_trades:
  "trades (snd (deleteChartImageBlob g bid db)) = trades db"
  by (simp add: deleteChartImageBlob_def record_request_def Let_def split: sum.splits bool.splits)

lemma deleteChartImageBlob_blobs:
  "blobs (snd (deleteChartImageBlob g bid db)) =
     (if delete_result g bid = Inr True then filter (\<lambda>x. blob_id x \<noteq> bid) (blobs db) else blobs db)"
  by (simp add: deleteChartImageBlob_def record_request_def Let_def split: sum.splits bool.splits)

lemma deleteChartImageBlob_fst:
  "fst (deleteChartImageBlob g bid db) = delete_result g bid"
  by (simp add: deleteChartImageBlob_def record_request_def Let_def split: sum.splits bool.splits)

lemma find_filter_append_new:
  "find (\<lambda>x. blob_id x = blob_id b) (filter (\<lambda>x. blob_id x \<noteq> blob_id b) xs @ [b]) = Some b"
  by (induction xs) auto

subsection \<open>The cleanup loop\<close>

text \<open>When no delete throws, the loop visits every blob: its counters, its requests, its store.\<close>

lemma cleanup_loop_fst:
  assumes "\<forall>b\<in>set bs. blob_tradeId b \<notin> T \<longrightarrow> (\<forall>e. delete_result g (blob_id b) \<noteq> Inl e)"
  shows "fst (cleanup_loop g T bs c db) =
     Inr \<lparr>cleaned = cleaned c + length (filter (\<lambda>b. blob_tradeId b \<notin> T \<and> delete_result g (blob_id b) = Inr True) bs),
          errors = errors c + length (filter (\<lambda>b. blob_tradeId b \<notin> T \<and> delete_result g (blob_id b) = Inr False) bs)\<rparr>"
  using assms
proof (induction bs arbitrary: c db)
  case Nil
  then show ?case by simp
next
  case (Cons b bs)
  show ?case
  proof (cases "blob_tradeId b \<notin> T")
    case False
    then show ?thesis using Cons by simp
  next
    case True
    then obtain ok where ok: "delete_result g (blob_id b) = Inr ok"
      using Cons.prems by (cases "delete_result g (blob_id b)") auto
    obtain r db1 where d: "deleteChartImageBlob g (blob_id b) db = (r, db1)" by (cases "deleteChartImageBlob g (blob_id b) db")
    then have r: "r = Inr ok" using deleteChartImageBlob_fst[of g "blob_id b" db] ok by simp
    show ?thesis using True Cons d r ok by (cases ok) simp_all
  qed
qed

lemma cleanup_loop_requests:
  assumes "\<forall>b\<in>set bs. blob_tradeId b \<notin> T \<longrightarrow> (\<forall>e. delete_result g (blob_id b) \<noteq> Inl e)"
  shows "requests (snd (cleanup_loop g T bs c db)) =
     requests db @ map (\<lambda>b. DeleteChartImageBlob (blob_id b)) (filter (\<lambda>b. blob_tradeId b \<notin> T) bs)"
  using assms
proof (induction bs arbitrary: c db)
  case Nil
  then show ?case by simp
next
  case (Cons b bs)
  show ?case
  proof (cases "blob_tradeId b \<notin> T")
    case False
    then show ?thesis using Cons by simp
  next
    case True
    then obtain ok where ok: "delete_result g (blob_id b) = Inr ok"
      using Cons.prems by (cases "delete_result g (blob_id b)") auto
    obtain r db1 where d: "deleteChartImageBlob g (blob_id b) db = (r, db1)" by (cases "deleteChartImageBlob g (blob_id b) db")
    then have r: "r = Inr ok" using deleteChartImageBlob_fst[of g "blob_id b" db] ok by simp
    have q: "requests db1 = requests db @ [DeleteChartImageBlob (blob_id b)]"
      using deleteChartImageBlob_requests[of g "blob_id b" db] d by simp
    show ?thesis using True Cons d r q by (cases ok) simp_all
  qed
qed

lemma cleanup_loop_blobs_exact:
  assumes "\<forall>b\<in>set bs. blob_tradeId b \<notin> T \<longrightarrow> (\<forall>e. delete_result g (blob_id b) \<noteq> Inl e)"
  shows "blobs (snd (cleanup_loop g T bs c db)) =
     filter (\<lambda>x. blob_id x \<notin> blob_id ` {b \<in> set bs. blob_tradeId b \<notin> T \<and> delete_result g (blob_id b) = Inr True}) (blobs db)"
  using assms
proof (induction bs arbitrary: c db)
  case Nil
  then show ?case by simp
next
  case (Cons b bs)
  show ?case
  proof (cases "blob_tradeId b \<notin> T")
    case False
    then have "{x \<in> set (b # bs). blob_tradeId x \<notin> T \<and> delete_result g (blob_id x) = Inr True}
      = {x \<in> set bs. blob_tradeId x \<notin> T \<and> delete_result g (blob_id x) = Inr True}" by auto
    then show ?thesis using False Cons by simp
  next
    case True
    then obtain ok where ok: "delete_result g (blob_id b) = Inr ok"
      using Cons.prems by (cases "delete_result g (blob_id b)") auto
    obtain r db1 where d: "deleteChartImageBlob g (blob_id b) db = (r, db1)" by (cases "deleteChartImageBlob g (blob_id b) db")
    then have r: "r = Inr ok" using deleteChartImageBlob_fst[of g "blob_id b" db] ok by simp
    have bl: "blobs db1 = (if ok then filter (\<lambda>x. blob_id x \<noteq> blob_id b) (blobs db) else blobs db)"
      using deleteChartImageBlob_blobs[of g "blob_id b" db] d ok by simp
    show ?thesis
    proof (cases ok)
      case t: True
      have "{x \<in> set (b # bs). blob_tradeId x \<notin> T \<and> delete_result g (blob_id x) = Inr True}
        = insert b {x \<in> set bs. blob_tradeId x \<notin> T \<and> delete_result g (blob_id x) = Inr True}"
        using True ok t by auto
      then show ?thesis using True Cons d r bl t by (auto intro: filter_cong)
    next
      case f: False
      have "{x \<in> set (b # bs). blob_tradeId x \<notin> T \<and> delete_result g (blob_id x) = Inr True}
        = {x \<in> set bs. blob_tradeId x \<notin> T \<and> delete_result g (blob_id x) = Inr True}"
        using True ok f by auto
      then show ?thesis using True Cons d r bl f by simp
    qed
  qed
qed

text \<open>Whatever the gateway does, the loop removes only blobs it asked to delete.\<close>

lemma cleanup_loop_blobs:
  "\<exists>D. D \<subseteq> {blob_id b | b. b \<in> set bs \<and> blob_tradeId b \<notin> T \<and> delete_result g (blob_id b) = Inr True}
     \<and> blobs (snd (cleanup_loop g T bs c db)) = filter (\<lambda>x. blob_id x \<notin> D) (blobs db)"
proof (induction bs arbitrary: c db)
  case Nil
  show ?case by (rule exI[of _ "{}"]) simp
next
  case (Cons b bs)
  let ?S = "\<lambda>bs. {blob_id b | b. b \<in> set bs \<and> blob_tradeId b \<notin> T \<and> delete_result g (blob_id b) = Inr True}"
  have mono: "?S bs \<subseteq> ?S (b # bs)" by auto
  show ?case
  proof (cases "blob_tradeId b \<notin> T")
    case False
    from Cons[of c db] obtain D where "D \<subseteq> ?S bs" "blobs (snd (cleanup_loop g T bs c db)) = filter (\<lambda>x. blob_id x \<notin> D) (blobs db)" by blast
    then show ?thesis using False mono by (intro exI[of _ D]) auto
  next
    case True
    obtain r db1 where d: "deleteChartImageBlob g (blob_id b) db = (r, db1)" by (cases "deleteChartImageBlob g (blob_id b) db")
    have r: "r = delete_result g (blob_id b)" using deleteChartImageBlob_fst[of g "blob_id b" db] d by simp
    have bl: "blobs db1 = (if delete_result g (blob_id b) = Inr True then filter (\<lambda>x. blob_id x \<noteq> blob_id b) (blobs db) else blobs db)"
      using deleteChartImageBlob_blobs[of g "blob_id b" db] d by simp
    show ?thesis
    proof (cases r)
      case (Inl e)
      then show ?thesis using True d r bl by (intro exI[of _ "{}"]) auto
    next
      case (Inr ok)
      show ?thesis
      proof (cases ok)
        case True
        from Cons[of "c\<lparr>cleaned := cleaned c + 1\<rparr>" db1] obtain D where D: "D \<subseteq> ?S bs"
          "blobs (snd (cleanup_loop g T bs (c\<lparr>cleaned := cleaned c + 1\<rparr>) db1)) = filter (\<lambda>x. blob_id x \<notin> D) (blobs db1)" by blast
        have "insert (blob_id b) D \<subseteq> ?S (b # bs)" using D(1) \<open>blob_tradeId b \<notin> T\<close> r Inr True by auto
        moreover have "blobs (snd (cleanup_loop g T (b # bs) c db)) = filter (\<lambda>x. blob_id x \<notin> insert (blob_id b) D) (blobs db)"
          using \<open>blob_tradeId b \<notin> T\<close> d Inr True D(2) bl r by (auto intro: filter_cong)
        ultimately show ?thesis by blast
      next
        case False
        from Cons[of "c\<lparr>errors := errors c + 1\<rparr>" db1] obtain D where D: "D \<subseteq> ?S bs"
          "blobs (snd (cleanup_loop g T bs (c\<lparr>errors := errors c + 1\<rparr>) db1)) = filter (\<lambda>x. blob_id x \<notin> D) (blobs db1)" by blast
        have "D \<subseteq> ?S (b # bs)" using D(1) mono by blast
        moreover have "blobs (snd (cleanup_loop g T (b # bs) c db)) = filter (\<lambda>x. blob_id x \<notin> D) (blobs db)"
          using \<open>blob_tradeId b \<notin> T\<close> d Inr False D(2) bl r by auto
        ultimately show ?thesis by blast
      qed
    qed
  qed
qed

text \<open>And it asks for the deletion of orphaned blobs only, in their order, up to where it stops.\<close>

lemma cleanup_loop_requests_any:
  "\<exists>k. requests (snd (cleanup_loop g T bs c db)) =
     requests db @ map (\<lambda>b. DeleteChartImageBlob (blob_id b)) (take k (filter (\<lambda>b. blob_tradeId b \<notin> T) bs))"
proof (induction bs arbitrary: c db)
  case Nil
  then show ?case by simp
next
  case (Cons b bs)
  show ?case
  proof (cases "blob_tradeId b \<notin> T")
    case False
    then show ?thesis using Cons[of c db] by simp
  next
    case True
    obtain r db1 where d: "deleteChartImageBlob g (blob_id b) db = (r, db1)"
      by (cases "deleteChartImageBlob g (blob_id b) db")
    have q: "requests db1 = requests db @ [DeleteChartImageBlob (blob_id b)]"
      using deleteChartImageBlob_requests[of g "blob_id b" db] d by simp
    show ?thesis
    proof (cases r)
      case (Inl e)
      then show ?thesis using True d q by (intro exI[of _ 1]) simp
    next
      case (Inr ok)
      let ?c = "if ok then c\<lparr>cleaned := cleaned c + 1\<rparr> else c\<lparr>errors := errors c + 1\<rparr>"
      from Cons[of ?c db1] obtain k where
        "requests (snd (cleanup_loop g T bs ?c db1)) =
           requests db1 @ map (\<lambda>b. DeleteChartImageBlob (blob_id b)) (take k (filter (\<lambda>b. blob_tradeId b \<notin> T) bs))"
        by blast
      then show ?thesis using True d q Inr by (intro exI[of _ "Suc k"]) (cases ok; simp)
    qed
  qed
qed

lemma cleanupOrphanedBlobs_unfold:
  assumes "list_blobs_error g = None" "list_trades_error g = None"
  shows "cleanupOrphanedBlobs g db =
     (case cleanup_loop g (set (map trade_id (trades db))) (blobs db) \<lparr>cleaned = 0, errors = 0\<rparr>
             (record_request GetAllTrades (record_request GetAllChartImageBlobs db)) of
        (Inl e, db3) \<Rightarrow> (\<lparr>cleaned = 0, errors = 1\<rparr>, db3)
      | (Inr counters, db3) \<Rightarrow> (counters, db3))"
  using assms
  by (simp add: cleanupOrphanedBlobs_def getAllChartImageBlobs_def getAllTrades_def Let_def record_request_def)

lemma cleanupOrphanedBlobs_snd:
  assumes "list_blobs_error g = None" "list_trades_error g = None"
  shows "snd (cleanupOrphanedBlobs g db) =
     snd (cleanup_loop g (set (map trade_id (trades db))) (blobs db) \<lparr>cleaned = 0, errors = 0\<rparr>
             (record_request GetAllTrades (record_request GetAllChartImageBlobs db)))"
  unfolding cleanupOrphanedBlobs_unfold[OF assms]
  by (auto split: prod.splits sum.splits)

lemma cleanupOrphanedBlobs_blobs_any:
  "\<exists>D. D \<subseteq> {blob_id b | b. b \<in> set (blobs db) \<and> orphaned db b}
     \<and> blobs (snd (cleanupOrphanedBlobs g db)) = filter (\<lambda>x. blob_id x \<notin> D) (blobs db)"
proof (cases "list_blobs_error g = None \<and> list_trades_error g = None")
  case True
  let ?db2 = "record_request GetAllTrades (record_request GetAllChartImageBlobs db)"
  from cleanup_loop_blobs[of "blobs db" "set (map trade_id (trades db))" g "\<lparr>cleaned = 0, errors = 0\<rparr>" ?db2]
  obtain D where D: "D \<subseteq> {blob_id b | b. b \<in> set (blobs db) \<and> blob_tradeId b \<notin> set (map trade_id (trades db)) \<and> delete_result g (blob_id b) = Inr True}"
    "blobs (snd (cleanup_loop g (set (map trade_id (trades db))) (blobs db) \<lparr>cleaned = 0, errors = 0\<rparr> ?db2)) = filter (\<lambda>x. blob_id x \<notin> D) (blobs ?db2)"
    by blast
  have "D \<subseteq> {blob_id b | b. b \<in> set (blobs db) \<and> orphaned db b}" using D(1) by (auto simp: orphaned_def)
  moreover have "blobs (snd (cleanupOrphanedBlobs g db)) = filter (\<lambda>x. blob_id x \<notin> D) (blobs db)"
    using D(2) True cleanupOrphanedBlobs_snd[of g db] by (simp add: record_request_def)
  ultimately show ?thesis by blast
next
  case False
  then have "blobs (snd (cleanupOrphanedBlobs g db)) = blobs db"
    by (auto simp add: cleanupOrphanedBlobs_def getAllChartImageBlobs_def getAllTrades_def Let_def record_request_def split: option.splits)
  then show ?thesis by (intro exI[of _ "{}"]) simp
qed

lemma cleanupOrphanedBlobs_requests_any:
  "\<exists>k. delete_requests (requests (snd (cleanupOrphanedBlobs g db))) =
     delete_requests (requests db) @ take k (map blob_id (filter (orphaned db) (blobs db)))"
proof (cases "list_blobs_error g = None \<and> list_trades_error g = None")
  case True
  let ?T = "set (map trade_id (trades db))"
  let ?db2 = "record_request GetAllTrades (record_request GetAllChartImageBlobs db)"
  have orph: "(\<lambda>b. blob_tradeId b \<notin> ?T) = orphaned db" by (auto simp: orphaned_def)
  obtain k where "requests (snd (cleanup_loop g ?T (blobs db) \<lparr>cleaned = 0, errors = 0\<rparr> ?db2)) =
     requests ?db2 @ map (\<lambda>b. DeleteChartImageBlob (blob_id b)) (take k (filter (\<lambda>b. blob_tradeId b \<notin> ?T) (blobs db)))"
    using cleanup_loop_requests_any by blast
  then have "delete_requests (requests (snd (cleanupOrphanedBlobs g db))) =
     delete_requests (requests db) @ take k (map blob_id (filter (orphaned db) (blobs db)))"
    using True cleanupOrphanedBlobs_snd[of g db] orph
    by (simp add: delete_requests_append delete_requests_map record_request_def take_map)
  then show ?thesis by blast
next
  case False
  then have "delete_requests (requests (snd (cleanupOrphanedBlobs g db))) = delete_requests (requests db)"
    by (auto simp add: cleanupOrphanedBlobs_def getAllChartImageBlobs_def getAllTrades_def Let_def
          record_request_def delete_requests_append split: option.splits)
  then show ?thesis by (intro exI[of _ 0]) simp
qed

lemma distinct_ids_eq:
  assumes "distinct (map blob_id bs)" "x \<in> set bs" "y \<in> set bs" "blob_id x = blob_id y"
  shows "x = y"
  using assms by (meson distinct_map inj_onD)

lemma length_filter_split:
  assumes "\<forall>b\<in>set bs. P b \<longrightarrow> (\<forall>e. r b \<noteq> Inl e)"
  shows "length (filter (\<lambda>b. P b \<and> r b = Inr True) bs) + length (filter (\<lambda>b. P b \<and> r b = Inr False) bs)
       = length (filter P bs)"
  using assms
proof (induction bs)
  case Nil
  then show ?case by simp
next
  case (Cons b bs)
  show ?case
  proof (cases "P b")
    case True
    then obtain ok where "r b = Inr ok" using Cons.prems by (cases "r b") auto
    then show ?thesis using True Cons by (cases ok) auto
  next
    case False
    then show ?thesis using Cons by simp
  qed
qed

subsection \<open>Statistics, delete and attach\<close>

lemma foldl_blob_size:
  assumes "exact_integers rnd" and "0 \<le> a" and "\<forall>b\<in>set bs. 0 \<le> blob_size b"
    and "a + sum_list (map blob_size bs) \<le> 2 ^ 53"
  shows "foldl (\<lambda>total blob. rnd (total + blob_size blob)) a bs = a + sum_list (map blob_size bs)"
  using assms(2-4)
proof (induction bs arbitrary: a)
  case Nil
  then show ?case by simp
next
  case (Cons b bs)
  have nonneg: "0 \<le> sum_list (map blob_size bs)"
    using Cons.prems(2) by (intro sum_list_nonneg) auto
  have "0 \<le> a + blob_size b" "a + blob_size b \<le> 2 ^ 53"
    using Cons.prems nonneg by simp_all
  then have r: "rnd (a + blob_size b) = a + blob_size b"
    using assms(1) by (simp add: exact_integers_def)
  have "foldl (\<lambda>total blob. rnd (total + blob_size blob)) (a + blob_size b) bs
          = (a + blob_size b) + sum_list (map blob_size bs)"
    using Cons.prems \<open>0 \<le> a + blob_size b\<close> by (intro Cons.IH) simp_all
  then show ?case using r by simp
qed

lemma getStorageStats_read:
  assumes "list_blobs_error g = None"
  shows "fst (getStorageStats rnd g db) =
     \<lparr>totalImages = length (blobs db),
      totalSize = foldl (\<lambda>total blob. rnd (total + blob_size blob)) 0 (blobs db),
      inlineImages = 0, inlineSize = 0,
      blobImages = length (blobs db),
      blobSize = foldl (\<lambda>total blob. rnd (total + blob_size blob)) 0 (blobs db)\<rparr>"
  using assms
  by (simp add: getStorageStats_def getAllChartImageBlobs_def record_request_def Let_def)

text \<open>Beyond \<open>2 ^ 53\<close> the sum is rounded: the sizes \<open>2 ^ 53\<close> and 1 add up to \<open>2 ^ 53\<close>.\<close>

lemma getStorageStats_rounds:
  "blobSize (fst (getStorageStats round_to_even reliable_gateway large_db)) = 2 ^ 53"
proof -
  have "list_blobs_error reliable_gateway = None" by (simp add: reliable_gateway_def)
  then show ?thesis
    unfolding getStorageStats_read[OF \<open>list_blobs_error reliable_gateway = None\<close>]
    by (simp add: large_db_def example_blob_def round_to_even_def)
qed

lemma deleteChartImage_fst:
  "fst (deleteChartImage g tradeId imageType ci db) =
     (case uses_blob ci of None \<Rightarrow> True | Some bid \<Rightarrow> (\<forall>e. delete_result g bid \<noteq> Inl e))"
proof (cases "uses_blob ci")
  case None
  then show ?thesis by (simp add: deleteChartImage_def)
next
  case (Some bid)
  obtain r db1 where d: "deleteChartImageBlob g bid db = (r, db1)" by (cases "deleteChartImageBlob g bid db")
  then have r: "r = delete_result g bid" using deleteChartImageBlob_fst[of g bid db] by simp
  show ?thesis
  proof (cases "delete_result g bid")
    case (Inl e)
    then show ?thesis using Some d r by (simp add: deleteChartImage_def)
  next
    case (Inr ok)
    then show ?thesis using Some d r by (simp add: deleteChartImage_def)
  qed
qed

lemma attach_inline:
  assumes "valid_file cfg f" and "int (length (payload cfg f sc)) < INLINE_THRESHOLD cfg"
  shows "\<exists>ci. attachChartImage g cfg tradeId imageType f sc db
            = (\<lparr>success = True, chartImage = Some ci, error = None\<rparr>, db)
          \<and> storage ci = Inline \<and> blobId ci = None"
  using assms
  by (simp add: attachChartImage_def createChartImage_def choose_storage_def uses_blob_def Let_def)

lemma attach_blob:
  assumes "valid_file cfg f" and "new_blob_id cfg \<noteq> []"
    and "INLINE_THRESHOLD cfg < int (length (payload cfg f sc))"
  shows "attachChartImage g cfg tradeId imageType f sc db =
     (case saveChartImageBlob g (attached_blob cfg tradeId imageType f sc) db of
        (Inl e, db1) \<Rightarrow> (attach_failed (error_message e), db1)
      | (Inr blobSaved, db1) \<Rightarrow>
          if \<not> blobSaved then (attach_failed ''Failed to save image blob to database'', db1)
          else (\<lparr>success = True,
                 chartImage = Some \<lparr>img_id = new_image_id cfg, img_filename = file_name f,
                   img_mimeType = file_type f, img_size = int (length (payload cfg f sc)),
                   img_uploadedAt = now cfg, storage = Blob, blobId = Some (new_blob_id cfg),
                   compressed = Some sc, originalSize = Some (file_size f), img_data = None\<rparr>,
                 error = None\<rparr>, db1))"
  using assms
  by (simp add: attachChartImage_def createChartImage_def choose_storage_def uses_blob_def Let_def attached_blob_def)

subsection \<open>Untyped values\<close>

lemma typeof_string: "typeof v = ''string'' \<longleftrightarrow> (\<exists>s. v = JString s)"
  by (cases v) auto

lemma typeof_object: "typeof v = ''object'' \<and> truthy v \<longleftrightarrow> (\<exists>cls props. v = JObject cls props)"
  by (cases v) auto

lemma instanceof_Date_iff: "instanceof_Date v \<longleftrightarrow> (\<exists>props. v = JObject DateObject props)"
  by (cases v rule: instanceof_Date.cases) auto

subsection \<open>The viewer\<close>

lemma includes_str_sublist: "includes_str s sub = sublist sub s"
  by (induction s) (auto simp: sublist_Cons_right)

lemma viewer_step_zoom:
  assumes "rounding rnd" "1/2 \<le> zoom s" "zoom s \<le> 5"
  shows "1/2 \<le> zoom (viewer_step rnd filtered s op) \<and> zoom (viewer_step rnd filtered s op) \<le> 5"
proof -
  from assms(1) have m: "mono rnd" and lo: "rnd (1/2) = 1/2" and hi: "rnd 5 = 5"
    by (simp_all add: rounding_def)
  have "1/2 \<le> zoom s * (3/2)" using assms(2) by simp
  then have a: "1/2 \<le> rnd (zoom s * (3/2))" using monoD[OF m, of "1/2" "zoom s * (3/2)"] lo by simp
  have "zoom s / (3/2) \<le> 5" using assms(3) by simp
  then have b: "rnd (zoom s / (3/2)) \<le> 5" using monoD[OF m, of "zoom s / (3/2)" 5] hi by simp
  show ?thesis using a b assms(2,3)
    by (cases op) (auto simp: handleZoomIn_def handleZoomOut_def resetZoom_def navigateNext_def navigatePrevious_def)
qed

lemma viewer_run_zoom:
  assumes "rounding rnd" "1/2 \<le> zoom s" "zoom s \<le> 5"
  shows "1/2 \<le> zoom (viewer_run rnd filtered s ops) \<and> zoom (viewer_run rnd filtered s ops) \<le> 5"
  using assms(2,3) unfolding viewer_run_def
proof (induction ops arbitrary: s)
  case Nil
  then show ?case by simp
next
  case (Cons a ops)
  then show ?case using viewer_step_zoom[OF assms(1), of s filtered a] by simp
qed

lemma viewer_step_index:
  assumes "0 \<le> currentIndex s" "currentIndex s \<le> int (length filtered) - 1"
  shows "0 \<le> currentIndex (viewer_step rnd filtered s op)
       \<and> currentIndex (viewer_step rnd filtered s op) \<le> int (length filtered) - 1"
  using assms
  by (cases op) (auto simp: handleZoomIn_def handleZoomOut_def resetZoom_def navigateNext_def navigatePrevious_def)

lemma viewer_run_index:
  assumes "0 \<le> currentIndex s" "currentIndex s \<le> int (length filtered) - 1"
  shows "0 \<le> currentIndex (viewer_run rnd filtered s ops)
       \<and> currentIndex (viewer_run rnd filtered s ops) \<le> int (length filtered) - 1"
  using assms unfolding viewer_run_def
proof (induction ops arbitrary: s)
  case Nil
  then show ?case by simp
next
  case (Cons a ops)
  then show ?case using viewer_step_index[of s filtered rnd a] by simp
qed

lemma orphaned_test: "(\<lambda>b. blob_tradeId b \<notin> set (map trade_id (trades db))) = orphaned db"
  by (rule ext) (simp add: orphaned_def)

lemma cleanupOrphanedBlobs_requests:
  assumes "list_blobs_error g = None" and "list_trades_error g = None"
    and "\<forall>b\<in>set (blobs db). orphaned db b \<longrightarrow> (\<forall>e. delete_result g (blob_id b) \<noteq> Inl e)"
  shows "delete_requests (requests (snd (cleanupOrphanedBlobs g db)))
           = delete_requests (requests db) @ map blob_id (filter (orphaned db) (blobs db))"
proof -
  let ?T = "set (map trade_id (trades db))"
  let ?db2 = "record_request GetAllTrades (record_request GetAllChartImageBlobs db)"
  have nt: "\<forall>b\<in>set (blobs db). blob_tradeId b \<notin> ?T \<longrightarrow> (\<forall>e. delete_result g (blob_id b) \<noteq> Inl e)"
    using assms(3) by (simp add: orphaned_def)
  have "requests (snd (cleanupOrphanedBlobs g db)) =
     requests ?db2 @ map (\<lambda>b. DeleteChartImageBlob (blob_id b)) (filter (orphaned db) (blobs db))"
    unfolding cleanupOrphanedBlobs_snd[OF assms(1,2)] cleanup_loop_requests[OF nt] orphaned_test ..
  then show ?thesis
    by (simp add: delete_requests_append delete_requests_map record_request_def)
qed

lemma cleanupOrphanedBlobs_blobs_all:
  assumes "distinct (map blob_id (blobs db))"
    and "list_blobs_error g = None" and "list_trades_error g = None"
    and "\<forall>b\<in>set (blobs db). orphaned db b \<longrightarrow> delete_result g (blob_id b) = Inr True"
  shows "blobs (snd (cleanupOrphanedBlobs g db)) = filter (\<lambda>b. \<not> orphaned db b) (blobs db)"
proof -
  let ?T = "set (map trade_id (trades db))"
  let ?db2 = "record_request GetAllTrades (record_request GetAllChartImageBlobs db)"
  let ?gone = "blob_id ` {b \<in> set (blobs db). blob_tradeId b \<notin> ?T \<and> delete_result g (blob_id b) = Inr True}"
  have nt: "\<forall>b\<in>set (blobs db). blob_tradeId b \<notin> ?T \<longrightarrow> (\<forall>e. delete_result g (blob_id b) \<noteq> Inl e)"
    using assms(4) by (auto simp: orphaned_def)
  have "blobs (snd (cleanupOrphanedBlobs g db)) = filter (\<lambda>x. blob_id x \<notin> ?gone) (blobs db)"
    unfolding cleanupOrphanedBlobs_snd[OF assms(2,3)] cleanup_loop_blobs_exact[OF nt]
    by (simp add: record_request_def)
  also have "\<dots> = filter (\<lambda>b. \<not> orphaned db b) (blobs db)"
  proof (rule filter_cong[OF refl])
    fix x assume x: "x \<in> set (blobs db)"
    show "(blob_id x \<notin> ?gone) = (\<not> orphaned db x)"
    proof
      assume "blob_id x \<notin> ?gone"
      then show "\<not> orphaned db x" using x assms(4) by (auto simp: orphaned_def)
    next
      assume n: "\<not> orphaned db x"
      show "blob_id x \<notin> ?gone"
      proof
        assume "blob_id x \<in> ?gone"
        then obtain b where "b \<in> set (blobs db)" "blob_tradeId b \<notin> ?T" "blob_id x = blob_id b" by auto
        then show False using distinct_ids_eq[OF assms(1) x, of b] n by (auto simp: orphaned_def)
      qed
    qed
  qed
  finally show ?thesis .
qed

lemma cleanupOrphanedBlobs_keeps:
  assumes "distinct (map blob_id (blobs db))"
  shows "filter (\<lambda>b. \<not> orphaned db b) (blobs (snd (cleanupOrphanedBlobs g db)))
           = filter (\<lambda>b. \<not> orphaned db b) (blobs db)
       \<and> set (blobs (snd (cleanupOrphanedBlobs g db))) \<subseteq> set (blobs db)"
proof -
  obtain D where D: "D \<subseteq> {blob_id b | b. b \<in> set (blobs db) \<and> orphaned db b}"
    "blobs (snd (cleanupOrphanedBlobs g db)) = filter (\<lambda>x. blob_id x \<notin> D) (blobs db)"
    using cleanupOrphanedBlobs_blobs_any[of db g] by blast
  have keep: "blob_id x \<notin> D" if "x \<in> set (blobs db)" "\<not> orphaned db x" for x
  proof
    assume "blob_id x \<in> D"
    then obtain b where "b \<in> set (blobs db)" "orphaned db b" "blob_id b = blob_id x" using D(1) by auto
    then show False using distinct_ids_eq[OF assms, of b x] that by auto
  qed
  show ?thesis unfolding D(2) using keep by (auto intro: filter_cong)
qed

section \<open>The properties of the specification\<close>

subsection \<open>Cleanup of orphaned blobs\<close>

text \<open>
  Claim C1. For every store of blob records with distinct ids (the id is the key of the blob
  table) and every list of trades, \<^verbatim>\<open>cleanupOrphanedBlobs\<close> leaves every blob whose trade id
  is the id of a current trade in the store, in place and unchanged, and adds no blob,
  whatever the gateway answers. The deletes it asks for are deletes of orphaned blobs, in
  the order of the store; when no call of the gateway throws, they are the deletes of all
  orphaned blobs, and when each of them succeeds, the store afterwards holds exactly the
  blobs of current trades.
\<close>

theorem cleanupOrphanedBlobs_exact:
  assumes "distinct (map blob_id (blobs db))"
  shows "filter (\<lambda>b. \<not> orphaned db b) (blobs (snd (cleanupOrphanedBlobs g db)))
           = filter (\<lambda>b. \<not> orphaned db b) (blobs db)
       \<and> set (blobs (snd (cleanupOrphanedBlobs g db))) \<subseteq> set (blobs db)
       \<and> (\<exists>k. delete_requests (requests (snd (cleanupOrphanedBlobs g db)))
                = delete_requests (requests db) @ take k (map blob_id (filter (orphaned db) (blobs db))))
       \<and> (list_blobs_error g = None \<and> list_trades_error g = None \<and>
          (\<forall>b\<in>set (blobs db). orphaned db b \<longrightarrow> (\<forall>e. delete_result g (blob_id b) \<noteq> Inl e))
          \<longrightarrow> delete_requests (requests (snd (cleanupOrphanedBlobs g db)))
                = delete_requests (requests db) @ map blob_id (filter (orphaned db) (blobs db)))
       \<and> (list_blobs_error g = None \<and> list_trades_error g = None \<and>
          (\<forall>b\<in>set (blobs db). orphaned db b \<longrightarrow> delete_result g (blob_id b) = Inr True)
          \<longrightarrow> blobs (snd (cleanupOrphanedBlobs g db)) = filter (\<lambda>b. \<not> orphaned db b) (blobs db))"
  using cleanupOrphanedBlobs_keeps[OF assms, of g]
    cleanupOrphanedBlobs_requests_any[of g db]
    cleanupOrphanedBlobs_requests[of g db]
    cleanupOrphanedBlobs_blobs_all[OF assms, of g]
  by blast

theorem cleanupOrphanedBlobs_exact_witness:
  "distinct (map blob_id (blobs example_db))
 \<and> blobs (snd (cleanupOrphanedBlobs reliable_gateway example_db))
     = [example_blob ''b1'' ''t1'' BeforeEntry 10]
 \<and> delete_requests (requests (snd (cleanupOrphanedBlobs reliable_gateway example_db)))
     = [''b2'', ''b3'']
 \<and> example_blob ''b1'' ''t1'' BeforeEntry 10
     \<in> set (blobs (snd (cleanupOrphanedBlobs failing_gateway example_db)))"
proof -
  have d: "distinct (map blob_id (blobs example_db))"
    by (simp add: example_db_def example_blob_def)
  have k: "filter (\<lambda>b. \<not> orphaned example_db b) (blobs example_db)
             = [example_blob ''b1'' ''t1'' BeforeEntry 10]"
    by (simp add: example_db_def example_blob_def orphaned_def)
  have o: "map blob_id (filter (orphaned example_db) (blobs example_db)) = [''b2'', ''b3'']"
    by (simp add: example_db_def example_blob_def orphaned_def)
  have s: "list_blobs_error reliable_gateway = None \<and> list_trades_error reliable_gateway = None \<and>
          (\<forall>b\<in>set (blobs example_db). orphaned example_db b \<longrightarrow>
               delete_result reliable_gateway (blob_id b) = Inr True)"
    by (simp add: reliable_gateway_def)
  have r: "requests example_db = []" by (simp add: example_db_def)
  have "example_blob ''b1'' ''t1'' BeforeEntry 10
          \<in> set (filter (\<lambda>b. \<not> orphaned example_db b)
                   (blobs (snd (cleanupOrphanedBlobs failing_gateway example_db))))"
    using cleanupOrphanedBlobs_exact[OF d, of failing_gateway] k by simp
  then have f: "example_blob ''b1'' ''t1'' BeforeEntry 10
                  \<in> set (blobs (snd (cleanupOrphanedBlobs failing_gateway example_db)))"
    by simp
  show ?thesis
    using d f cleanupOrphanedBlobs_exact[OF d, of reliable_gateway] s k o r by simp
qed

text \<open>
  Claim C8. \<^verbatim>\<open>cleanupOrphanedBlobs\<close> does not stop at a delete that fails. When the lists
  are read and no delete throws (a delete reports its failure by resolving to false), it asks
  for the deletion of every orphaned blob, in the order of the store; \<open>errors\<close> counts the
  orphaned blobs whose delete resolved to false and \<open>cleaned\<close> those whose delete
  resolved to true, so that their sum is the number of orphaned blobs.
\<close>

theorem cleanupOrphanedBlobs_counts:
  assumes "list_blobs_error g = None" and "list_trades_error g = None"
    and "\<forall>b\<in>set (blobs db). orphaned db b \<longrightarrow> (\<forall>e. delete_result g (blob_id b) \<noteq> Inl e)"
  shows "cleaned (fst (cleanupOrphanedBlobs g db))
           = length (filter (\<lambda>b. orphaned db b \<and> delete_result g (blob_id b) = Inr True) (blobs db))
       \<and> errors (fst (cleanupOrphanedBlobs g db))
           = length (filter (\<lambda>b. orphaned db b \<and> delete_result g (blob_id b) = Inr False) (blobs db))
       \<and> cleaned (fst (cleanupOrphanedBlobs g db)) + errors (fst (cleanupOrphanedBlobs g db))
           = length (filter (orphaned db) (blobs db))
       \<and> delete_requests (requests (snd (cleanupOrphanedBlobs g db)))
           = delete_requests (requests db) @ map blob_id (filter (orphaned db) (blobs db))"
proof -
  let ?T = "set (map trade_id (trades db))"
  let ?db2 = "record_request GetAllTrades (record_request GetAllChartImageBlobs db)"
  let ?loop = "cleanup_loop g ?T (blobs db) \<lparr>cleaned = 0, errors = 0\<rparr> ?db2"
  let ?counters =
    "\<lparr>cleaned = length (filter (\<lambda>b. orphaned db b \<and> delete_result g (blob_id b) = Inr True) (blobs db)),
      errors = length (filter (\<lambda>b. orphaned db b \<and> delete_result g (blob_id b) = Inr False) (blobs db))\<rparr>"
  have nt: "\<forall>b\<in>set (blobs db). blob_tradeId b \<notin> ?T \<longrightarrow> (\<forall>e. delete_result g (blob_id b) \<noteq> Inl e)"
    using assms(3) by (simp add: orphaned_def)
  obtain r db3 where l: "?loop = (r, db3)" by (cases ?loop)
  have r: "r = Inr ?counters"
    using cleanup_loop_fst[OF nt, of "\<lparr>cleaned = 0, errors = 0\<rparr>" ?db2] l by (simp add: orphaned_def)
  have c: "fst (cleanupOrphanedBlobs g db) = ?counters"
    unfolding cleanupOrphanedBlobs_unfold[OF assms(1,2)] l r by simp
  show ?thesis
    unfolding c using cleanupOrphanedBlobs_requests[OF assms] length_filter_split[OF assms(3)]
    by simp
qed

theorem cleanupOrphanedBlobs_counts_witness:
  "cleaned (fst (cleanupOrphanedBlobs failing_gateway example_db)) = 1
 \<and> errors (fst (cleanupOrphanedBlobs failing_gateway example_db)) = 1
 \<and> delete_requests (requests (snd (cleanupOrphanedBlobs failing_gateway example_db)))
     = [''b2'', ''b3'']"
proof -
  have a: "list_blobs_error failing_gateway = None" "list_trades_error failing_gateway = None"
    by (simp_all add: failing_gateway_def)
  have b: "\<forall>b\<in>set (blobs example_db). orphaned example_db b \<longrightarrow>
             (\<forall>e. delete_result failing_gateway (blob_id b) \<noteq> Inl e)"
    by (simp add: failing_gateway_def)
  have c: "length (filter (\<lambda>b. orphaned example_db b \<and>
              delete_result failing_gateway (blob_id b) = Inr True) (blobs example_db)) = 1"
    by (simp add: example_db_def example_blob_def orphaned_def failing_gateway_def)
  have e: "length (filter (\<lambda>b. orphaned example_db b \<and>
              delete_result failing_gateway (blob_id b) = Inr False) (blobs example_db)) = 1"
    by (simp add: example_db_def example_blob_def orphaned_def failing_gateway_def)
  have o: "map blob_id (filter (orphaned example_db) (blobs example_db)) = [''b2'', ''b3'']"
    by (simp add: example_db_def example_blob_def orphaned_def)
  have r: "requests example_db = []" by (simp add: example_db_def)
  show ?thesis using cleanupOrphanedBlobs_counts[OF a b] c e o r by simp
qed

subsection \<open>Attaching an image\<close>

text \<open>
  Claim C2. For every valid image file (its type is on the allow-list and its size within
  the limit), with a generated blob id that is not empty: when the payload, compressed if
  asked, is under the size threshold, \<^verbatim>\<open>attachChartImage\<close> succeeds with a descriptor of
  storage inline and asks nothing of the store; when the payload is above the threshold, it
  asks the store to save one blob record, under the generated id and for the given trade and
  slot, and then either the save succeeded, the result is a success whose descriptor has
  storage blob and the id of that record, and the store returns the record under that id, or
  the save failed (it resolved to false or threw), the result is a failure without a
  descriptor and with an error message, and the store holds what it held.
\<close>

theorem attachChartImage_storage:
  assumes "valid_file cfg f" and "new_blob_id cfg \<noteq> []"
  shows "(int (length (payload cfg f sc)) < INLINE_THRESHOLD cfg \<longrightarrow>
            (\<exists>ci. attachChartImage g cfg tradeId imageType f sc db
                     = (\<lparr>success = True, chartImage = Some ci, error = None\<rparr>, db)
                 \<and> storage ci = Inline))
       \<and> (INLINE_THRESHOLD cfg < int (length (payload cfg f sc)) \<longrightarrow>
            (case attachChartImage g cfg tradeId imageType f sc db of
               (res, db1) \<Rightarrow>
                 requests db1 = requests db @ [SaveChartImageBlob (attached_blob cfg tradeId imageType f sc)]
               \<and> (if save_result g (attached_blob cfg tradeId imageType f sc) = Inr True
                  then success res
                     \<and> (\<exists>ci. chartImage res = Some ci \<and> storage ci = Blob
                             \<and> blobId ci = Some (blob_id (attached_blob cfg tradeId imageType f sc)))
                     \<and> fst (getChartImageBlob (blob_id (attached_blob cfg tradeId imageType f sc)) db1)
                          = Some (attached_blob cfg tradeId imageType f sc)
                  else \<not> success res \<and> chartImage res = None \<and> error res \<noteq> None
                     \<and> blobs db1 = blobs db)))"
proof (intro conjI impI)
  assume "int (length (payload cfg f sc)) < INLINE_THRESHOLD cfg"
  then show "\<exists>ci. attachChartImage g cfg tradeId imageType f sc db
                     = (\<lparr>success = True, chartImage = Some ci, error = None\<rparr>, db)
                 \<and> storage ci = Inline"
    using attach_inline[OF assms(1), of sc g tradeId imageType db] by blast
next
  assume a: "INLINE_THRESHOLD cfg < int (length (payload cfg f sc))"
  let ?b = "attached_blob cfg tradeId imageType f sc"
  show "case attachChartImage g cfg tradeId imageType f sc db of
               (res, db1) \<Rightarrow>
                 requests db1 = requests db @ [SaveChartImageBlob ?b]
               \<and> (if save_result g ?b = Inr True
                  then success res
                     \<and> (\<exists>ci. chartImage res = Some ci \<and> storage ci = Blob
                             \<and> blobId ci = Some (blob_id ?b))
                     \<and> fst (getChartImageBlob (blob_id ?b) db1) = Some ?b
                  else \<not> success res \<and> chartImage res = None \<and> error res \<noteq> None
                     \<and> blobs db1 = blobs db)"
  proof (cases "save_result g ?b")
    case (Inl e)
    then show ?thesis
      unfolding attach_blob[OF assms a]
      by (simp add: saveChartImageBlob_def record_request_def Let_def attach_failed_def)
  next
    case (Inr ok)
    show ?thesis
    proof (cases ok)
      case True
      have "blob_id ?b = new_blob_id cfg" by (simp add: attached_blob_def)
      then show ?thesis
        unfolding attach_blob[OF assms a] using Inr True find_filter_append_new[of ?b "blobs db"]
        by (simp add: saveChartImageBlob_def record_request_def Let_def getChartImageBlob_def)
    next
      case False
      then show ?thesis
        unfolding attach_blob[OF assms a] using Inr
        by (simp add: saveChartImageBlob_def record_request_def Let_def attach_failed_def)
    qed
  qed
qed

theorem attachChartImage_storage_witness:
  "valid_file example_config (example_file ''abc'')
 \<and> valid_file example_config (example_file ''abcdef'')
 \<and> (\<exists>ci. attachChartImage reliable_gateway example_config ''t1'' BeforeEntry (example_file ''abc'') True example_db
           = (\<lparr>success = True, chartImage = Some ci, error = None\<rparr>, example_db) \<and> storage ci = Inline)
 \<and> success (fst (attachChartImage reliable_gateway example_config ''t1'' BeforeEntry (example_file ''abcdef'') True example_db))
 \<and> fst (getChartImageBlob ''b7''
      (snd (attachChartImage reliable_gateway example_config ''t1'' BeforeEntry (example_file ''abcdef'') True example_db)))
     = Some (attached_blob example_config ''t1'' BeforeEntry (example_file ''abcdef'') True)
 \<and> \<not> success (fst (attachChartImage failing_gateway example_config ''t1'' BeforeEntry (example_file ''abcdef'') True example_db))"
proof -
  have v: "valid_file example_config (example_file ''abc'')" "valid_file example_config (example_file ''abcdef'')"
    by (simp_all add: valid_file_def example_config_def example_file_def file_size_def)
  have n: "new_blob_id example_config \<noteq> []" by (simp add: example_config_def)
  have p: "int (length (payload example_config (example_file ''abc'') True)) < INLINE_THRESHOLD example_config"
    "INLINE_THRESHOLD example_config < int (length (payload example_config (example_file ''abcdef'') True))"
    by (simp_all add: payload_def example_config_def example_file_def)
  have i: "blob_id (attached_blob example_config ''t1'' BeforeEntry (example_file ''abcdef'') True) = ''b7''"
    by (simp add: attached_blob_def example_config_def)
  have s: "save_result reliable_gateway b = Inr True" "save_result failing_gateway b \<noteq> Inr True" for b
    by (simp_all add: reliable_gateway_def failing_gateway_def)
  show ?thesis
    using v p i s
      attachChartImage_storage[OF v(1) n, of True reliable_gateway "''t1''" BeforeEntry example_db]
      attachChartImage_storage[OF v(2) n, of True reliable_gateway "''t1''" BeforeEntry example_db]
      attachChartImage_storage[OF v(2) n, of True failing_gateway "''t1''" BeforeEntry example_db]
    by (auto split: prod.splits)
qed

subsection \<open>Deleting an image\<close>

text \<open>
  Claim C3. For every descriptor with storage blob and a blob id (defined and not empty, as
  the method tests it), \<^verbatim>\<open>deleteChartImage\<close> asks the store for exactly one thing, the
  deletion of the blob with that id; the trades are as before, and the blobs are as before
  without the records of that id when the delete succeeds, and as before when it does not.
  For every descriptor with storage inline it returns true and the store, with the list of
  requests made to it, is what it was.
\<close>

theorem deleteChartImage_blob_store:
  "(storage ci = Blob \<and> blobId ci = Some bid \<and> bid \<noteq> [] \<longrightarrow>
       requests (snd (deleteChartImage g tradeId imageType ci db)) = requests db @ [DeleteChartImageBlob bid]
     \<and> trades (snd (deleteChartImage g tradeId imageType ci db)) = trades db
     \<and> blobs (snd (deleteChartImage g tradeId imageType ci db))
         = (if delete_result g bid = Inr True then filter (\<lambda>x. blob_id x \<noteq> bid) (blobs db) else blobs db))
 \<and> (storage ci = Inline \<longrightarrow> deleteChartImage g tradeId imageType ci db = (True, db))"
proof (intro conjI impI)
  assume a: "storage ci = Blob \<and> blobId ci = Some bid \<and> bid \<noteq> []"
  then have u: "uses_blob ci = Some bid" by (simp add: uses_blob_def)
  have s: "snd (deleteChartImage g tradeId imageType ci db) = snd (deleteChartImageBlob g bid db)"
    by (simp add: deleteChartImage_def u split: prod.splits sum.splits)
  show "requests (snd (deleteChartImage g tradeId imageType ci db)) = requests db @ [DeleteChartImageBlob bid]"
    unfolding s by (rule deleteChartImageBlob_requests)
  show "trades (snd (deleteChartImage g tradeId imageType ci db)) = trades db"
    unfolding s by (rule deleteChartImageBlob_trades)
  show "blobs (snd (deleteChartImage g tradeId imageType ci db))
         = (if delete_result g bid = Inr True then filter (\<lambda>x. blob_id x \<noteq> bid) (blobs db) else blobs db)"
    unfolding s by (rule deleteChartImageBlob_blobs)
next
  assume "storage ci = Inline"
  then have "uses_blob ci = None" by (simp add: uses_blob_def split: option.splits)
  then show "deleteChartImage g tradeId imageType ci db = (True, db)"
    by (simp add: deleteChartImage_def)
qed

theorem deleteChartImage_blob_store_witness:
  "requests (snd (deleteChartImage reliable_gateway ''t9'' AfterExit
       (example_descriptor Blob (Some ''b2'')) example_db)) = [DeleteChartImageBlob ''b2'']
 \<and> blobs (snd (deleteChartImage reliable_gateway ''t9'' AfterExit
       (example_descriptor Blob (Some ''b2'')) example_db))
     = [example_blob ''b1'' ''t1'' BeforeEntry 10, example_blob ''b3'' ''t8'' BeforeEntry 30]
 \<and> deleteChartImage reliable_gateway ''t1'' BeforeEntry (example_descriptor Inline None) example_db
     = (True, example_db)"
  using deleteChartImage_blob_store[of "example_descriptor Blob (Some ''b2'')" "''b2''" reliable_gateway
          "''t9''" AfterExit example_db]
        deleteChartImage_blob_store[of "example_descriptor Inline None" "''b2''" reliable_gateway
          "''t1''" BeforeEntry example_db]
  by (simp add: example_descriptor_def reliable_gateway_def example_db_def example_blob_def)

text \<open>
  Claim C7. When the delete of the gateway resolves to false, \<^verbatim>\<open>deleteChartImage\<close> (for a
  descriptor with storage blob and a blob id) and \<^verbatim>\<open>deleteTradeChartImages\<close> still return
  true. The caller \<^verbatim>\<open>handleDelete\<close>, with an image in the slot and not disabled, calls
  \<^verbatim>\<open>onImageDeleted\<close>, which clears the slot, exactly when \<^verbatim>\<open>deleteChartImage\<close> returned
  true; so it does when the delete of the gateway resolved to false.
\<close>

theorem delete_failure_is_soft:
  "(storage ci = Blob \<and> blobId ci = Some bid \<and> bid \<noteq> [] \<and> delete_result g bid = Inr False \<longrightarrow>
       fst (deleteChartImage g tradeId imageType ci db) = True
     \<and> onImageDeleted_called (fst (handleDelete g tradeId imageType (Some ci) False err db)))
 \<and> (delete_trade_result g tradeId = Inr False \<longrightarrow> fst (deleteTradeChartImages g tradeId db) = True)
 \<and> (onImageDeleted_called (fst (handleDelete g tradeId imageType (Some ci) False err db))
      \<longleftrightarrow> fst (deleteChartImage g tradeId imageType ci db) = True)"
proof -
  have h: "onImageDeleted_called (fst (handleDelete g tradeId imageType (Some ci) False err db))
      \<longleftrightarrow> fst (deleteChartImage g tradeId imageType ci db) = True"
    by (simp add: handleDelete_def split: prod.splits)
  have d: "fst (deleteChartImage g tradeId imageType ci db) = True"
    if "storage ci = Blob \<and> blobId ci = Some bid \<and> bid \<noteq> [] \<and> delete_result g bid = Inr False"
    using that by (simp add: deleteChartImage_fst uses_blob_def)
  have t: "fst (deleteTradeChartImages g tradeId db) = True" if "delete_trade_result g tradeId = Inr False"
    using that by (simp add: deleteTradeChartImages_def deleteTradeChartImageBlobs_def Let_def)
  show ?thesis using h d t by blast
qed

theorem delete_failure_is_soft_witness:
  "delete_result failing_gateway ''b2'' = Inr False
 \<and> fst (deleteChartImage failing_gateway ''t9'' AfterExit (example_descriptor Blob (Some ''b2'')) example_db)
 \<and> onImageDeleted_called (fst (handleDelete failing_gateway ''t9'' AfterExit
       (Some (example_descriptor Blob (Some ''b2''))) False None example_db))
 \<and> delete_trade_result failing_gateway ''t9'' = Inr False
 \<and> fst (deleteTradeChartImages failing_gateway ''t9'' example_db)"
  using delete_failure_is_soft[of "example_descriptor Blob (Some ''b2'')" "''b2''" failing_gateway
          "''t9''" AfterExit example_db None]
  by (simp add: example_descriptor_def failing_gateway_def)

subsection \<open>Storage statistics\<close>

text \<open>
  Claim C9. \<^verbatim>\<open>getStorageStats\<close> counts blob records only: when the list of blobs is read,
  \<open>blobImages\<close> and \<open>totalImages\<close> are the number of blob records, and \<open>blobSize\<close>
  and \<open>totalSize\<close> are one number, the sum of the sizes of the blob records as the
  addition of doubles gives it, in the order of the list; this is the exact sum when the
  sizes are not negative and add up to \<open>2 ^ 53\<close> at most, where the addition of doubles
  is exact. \<open>inlineImages\<close> and \<open>inlineSize\<close> are 0 in every case.
\<close>

theorem getStorageStats_blobs_only:
  "(list_blobs_error g = None \<longrightarrow>
      blobImages (fst (getStorageStats rnd g db)) = length (blobs db)
    \<and> totalImages (fst (getStorageStats rnd g db)) = length (blobs db)
    \<and> blobSize (fst (getStorageStats rnd g db))
        = foldl (\<lambda>total blob. rnd (total + blob_size blob)) 0 (blobs db)
    \<and> totalSize (fst (getStorageStats rnd g db)) = blobSize (fst (getStorageStats rnd g db))
    \<and> (exact_integers rnd \<and> (\<forall>b\<in>set (blobs db). 0 \<le> blob_size b) \<and>
        sum_list (map blob_size (blobs db)) \<le> 2 ^ 53 \<longrightarrow>
          blobSize (fst (getStorageStats rnd g db)) = sum_list (map blob_size (blobs db))
        \<and> totalSize (fst (getStorageStats rnd g db)) = sum_list (map blob_size (blobs db))))
 \<and> inlineImages (fst (getStorageStats rnd g db)) = 0
 \<and> inlineSize (fst (getStorageStats rnd g db)) = 0"
proof (cases "list_blobs_error g")
  case None
  have "foldl (\<lambda>total blob. rnd (total + blob_size blob)) 0 (blobs db)
          = sum_list (map blob_size (blobs db))"
    if "exact_integers rnd" "\<forall>b\<in>set (blobs db). 0 \<le> blob_size b"
      "sum_list (map blob_size (blobs db)) \<le> 2 ^ 53"
    using foldl_blob_size[OF that(1), of 0 "blobs db"] that(2,3) by simp
  then show ?thesis
    unfolding getStorageStats_read[OF None] using None by simp
next
  case (Some e)
  then show ?thesis
    by (simp add: getStorageStats_def getAllChartImageBlobs_def record_request_def Let_def)
qed

theorem getStorageStats_blobs_only_witness:
  "list_blobs_error reliable_gateway = None
 \<and> sum_list (map blob_size (blobs example_db)) \<le> 2 ^ 53
 \<and> blobImages (fst (getStorageStats round_to_even reliable_gateway example_db)) = 3
 \<and> totalImages (fst (getStorageStats round_to_even reliable_gateway example_db)) = 3
 \<and> blobSize (fst (getStorageStats round_to_even reliable_gateway example_db)) = 60
 \<and> totalSize (fst (getStorageStats round_to_even reliable_gateway example_db)) = 60
 \<and> inlineImages (fst (getStorageStats round_to_even reliable_gateway example_db)) = 0
 \<and> inlineSize (fst (getStorageStats round_to_even reliable_gateway example_db)) = 0"
proof -
  have l: "list_blobs_error reliable_gateway = None" by (simp add: reliable_gateway_def)
  have x: "exact_integers round_to_even" by (simp add: exact_integers_def round_to_even_def)
  have n: "\<forall>b\<in>set (blobs example_db). 0 \<le> blob_size b"
    by (simp add: example_db_def example_blob_def)
  have m: "sum_list (map blob_size (blobs example_db)) = 60"
    by (simp add: example_db_def example_blob_def)
  have k: "length (blobs example_db) = 3" by (simp add: example_db_def)
  show ?thesis
    using l x n m k getStorageStats_blobs_only[of reliable_gateway round_to_even example_db]
    by simp
qed

subsection \<open>Validating attachments\<close>

text \<open>
  Claim C10. \<^verbatim>\<open>validateChartAttachments\<close> accepts a value exactly when it is a non-null
  object (of type \<^verbatim>\<open>'object'\<close>) each of whose entries \<^verbatim>\<open>beforeEntry\<close> and \<^verbatim>\<open>afterExit\<close> is
  falsy or passes \<^verbatim>\<open>validateChartImage\<close>. So it returns false for every value that is not a
  non-null object, and for every object with a truthy entry that fails the check; and it
  accepts every object whose two entries are missing or falsy, the empty object among them.
  The check of an entry holds exactly when the entry is a non-null object whose \<^verbatim>\<open>id\<close>,
  \<^verbatim>\<open>filename\<close> and \<^verbatim>\<open>mimeType\<close> are strings, whose \<^verbatim>\<open>size\<close> is a number, whose
  \<^verbatim>\<open>uploadedAt\<close> is a Date, whose \<^verbatim>\<open>storage\<close> is \<^verbatim>\<open>'inline'\<close> or \<^verbatim>\<open>'blob'\<close>, and whose
  \<^verbatim>\<open>mimeType\<close> is on the allow-list.
\<close>

theorem validateChartAttachments_spec:
  "(validateChartAttachments allowed v \<longleftrightarrow>
      (\<exists>cls props. v = JObject cls props)
      \<and> (truthy (get_prop v ''beforeEntry'') \<longrightarrow> validateChartImage allowed (get_prop v ''beforeEntry''))
      \<and> (truthy (get_prop v ''afterExit'') \<longrightarrow> validateChartImage allowed (get_prop v ''afterExit'')))
 \<and> ((\<forall>cls props. v \<noteq> JObject cls props) \<longrightarrow> \<not> validateChartAttachments allowed v)
 \<and> (truthy (get_prop v ''beforeEntry'') \<and> \<not> validateChartImage allowed (get_prop v ''beforeEntry'')
       \<longrightarrow> \<not> validateChartAttachments allowed v)
 \<and> (truthy (get_prop v ''afterExit'') \<and> \<not> validateChartImage allowed (get_prop v ''afterExit'')
       \<longrightarrow> \<not> validateChartAttachments allowed v)
 \<and> (\<not> truthy (get_prop (JObject cls props) ''beforeEntry'') \<and>
     \<not> truthy (get_prop (JObject cls props) ''afterExit'')
       \<longrightarrow> validateChartAttachments allowed (JObject cls props))
 \<and> validateChartAttachments allowed (JObject PlainObject [])
 \<and> (validateChartImage allowed img \<longleftrightarrow>
      (\<exists>cls props. img = JObject cls props)
      \<and> (\<exists>s. get_prop img ''id'' = JString s)
      \<and> (\<exists>s. get_prop img ''filename'' = JString s)
      \<and> (\<exists>m. get_prop img ''mimeType'' = JString m \<and> m \<in> set allowed)
      \<and> typeof (get_prop img ''size'') = ''number''
      \<and> (\<exists>dprops. get_prop img ''uploadedAt'' = JObject DateObject dprops)
      \<and> (get_prop img ''storage'' = JString ''inline'' \<or> get_prop img ''storage'' = JString ''blob''))"
proof -
  have o: "\<not> truthy v \<or> typeof v \<noteq> ''object'' \<longleftrightarrow> (\<forall>cls props. v \<noteq> JObject cls props)"
    using typeof_object[of v] by blast
  have a: "validateChartAttachments allowed v \<longleftrightarrow>
      (\<exists>cls props. v = JObject cls props)
      \<and> (truthy (get_prop v ''beforeEntry'') \<longrightarrow> validateChartImage allowed (get_prop v ''beforeEntry''))
      \<and> (truthy (get_prop v ''afterExit'') \<longrightarrow> validateChartImage allowed (get_prop v ''afterExit''))"
    unfolding validateChartAttachments_def using o by auto
  have c: "\<not> truthy (get_prop (JObject cls props) ''beforeEntry'') \<and>
     \<not> truthy (get_prop (JObject cls props) ''afterExit'')
       \<longrightarrow> validateChartAttachments allowed (JObject cls props)"
    unfolding validateChartAttachments_def by simp
  have d: "validateChartAttachments allowed (JObject PlainObject [])"
    unfolding validateChartAttachments_def by simp
  have e: "validateChartImage allowed img \<longleftrightarrow>
      (\<exists>cls props. img = JObject cls props)
      \<and> (\<exists>s. get_prop img ''id'' = JString s)
      \<and> (\<exists>s. get_prop img ''filename'' = JString s)
      \<and> (\<exists>m. get_prop img ''mimeType'' = JString m \<and> m \<in> set allowed)
      \<and> typeof (get_prop img ''size'') = ''number''
      \<and> (\<exists>dprops. get_prop img ''uploadedAt'' = JObject DateObject dprops)
      \<and> (get_prop img ''storage'' = JString ''inline'' \<or> get_prop img ''storage'' = JString ''blob'')"
    unfolding validateChartImage_def typeof_string instanceof_Date_iff
    using typeof_object[of img] by auto
  show ?thesis using a c d e by blast
qed

theorem validateChartAttachments_spec_witness:
  "validateChartAttachments [''image/png''] (JObject PlainObject [(''beforeEntry'', example_js_image ''image/png'')])
 \<and> \<not> validateChartAttachments [''image/png''] (JObject PlainObject [(''afterExit'', example_js_image ''text/html'')])
 \<and> \<not> validateChartAttachments [''image/png''] JNull
 \<and> \<not> validateChartAttachments [''image/png''] (JString ''beforeEntry'')
 \<and> validateChartAttachments [''image/png'']
      (JObject PlainObject [(''beforeEntry'', JNumber 0), (''afterExit'', JString [])])"
  using validateChartAttachments_spec[of "[''image/png'']"
          "JObject PlainObject [(''beforeEntry'', example_js_image ''image/png'')]" PlainObject
          "[(''beforeEntry'', JNumber 0), (''afterExit'', JString [])]" "example_js_image ''image/png''"]
        validateChartAttachments_spec[of "[''image/png'']"
          "JObject PlainObject [(''afterExit'', example_js_image ''text/html'')]" PlainObject
          "[]" "example_js_image ''text/html''"]
        validateChartAttachments_spec[of "[''image/png'']" JNull PlainObject "[]" JNull]
        validateChartAttachments_spec[of "[''image/png'']" "JString ''beforeEntry''" PlainObject "[]" JNull]
  by (simp add: example_js_image_def)

section \<open>The properties of the viewer\<close>

text \<open>
  Claim C4. For every list of images, every filter and every search string, the filtered
  list is the list of the images that pass the type filter (every image when the filter is
  \<^verbatim>\<open>'all'\<close>) and the symbol filter (every image when the search string is empty), in the
  order of the list; it holds exactly the images of the list that are in the result of the
  type filter alone and in the result of the symbol filter alone, and it is a subsequence of
  the list. With a filter other than \<^verbatim>\<open>'all'\<close> and a search string that is not empty, it
  holds the images of that type whose trade name contains the search string, letter case
  aside.
\<close>

theorem filteredImages_intersection:
  "filteredImages allImages flt symbolSearch =
     filter (\<lambda>img. (flt = F_all \<or> imageType_eq (blob_imageType img) flt) \<and>
                   (symbolSearch = [] \<or> symbolMatches symbolSearch img)) allImages
 \<and> filteredImages allImages flt symbolSearch =
     filter (\<lambda>img. img \<in> set (filteredImages allImages flt [])
                  \<and> img \<in> set (filteredImages allImages F_all symbolSearch)) allImages
 \<and> subseq (filteredImages allImages flt symbolSearch) allImages
 \<and> (flt \<noteq> F_all \<and> symbolSearch \<noteq> [] \<longrightarrow>
      filteredImages allImages flt symbolSearch =
        filter (\<lambda>img. imageType_eq (blob_imageType img) flt \<and> symbolMatches symbolSearch img) allImages)"
proof -
  have a: "filteredImages allImages flt symbolSearch =
     filter (\<lambda>img. (flt = F_all \<or> imageType_eq (blob_imageType img) flt) \<and>
                   (symbolSearch = [] \<or> symbolMatches symbolSearch img)) allImages" for flt symbolSearch
    by (simp add: filteredImages_def Let_def)
  have b: "filteredImages allImages flt symbolSearch =
     filter (\<lambda>img. img \<in> set (filteredImages allImages flt [])
                  \<and> img \<in> set (filteredImages allImages F_all symbolSearch)) allImages"
    unfolding a by (auto intro: filter_cong)
  have c: "subseq (filteredImages allImages flt symbolSearch) allImages"
    unfolding a by simp
  have d: "flt \<noteq> F_all \<and> symbolSearch \<noteq> [] \<longrightarrow>
      filteredImages allImages flt symbolSearch =
        filter (\<lambda>img. imageType_eq (blob_imageType img) flt \<and> symbolMatches symbolSearch img) allImages"
    unfolding a by simp
  show ?thesis using a b c d by blast
qed

theorem filteredImages_intersection_witness:
  "F_beforeEntry \<noteq> F_all \<and> ''tc'' \<noteq> [] \<and>
   filteredImages
     [example_image ''b1'' ''t1'' BeforeEntry (Some ''TCS''),
      example_image ''b2'' ''t1'' AfterExit (Some ''TCS''),
      example_image ''b3'' ''t2'' BeforeEntry (Some ''INFY''),
      example_image ''b4'' ''t3'' BeforeEntry None,
      example_image ''b5'' ''t4'' BeforeEntry (Some ''Natco'')] F_beforeEntry ''tc''
   = [example_image ''b1'' ''t1'' BeforeEntry (Some ''TCS''),
      example_image ''b5'' ''t4'' BeforeEntry (Some ''Natco'')]"
  using filteredImages_intersection
    [of "[example_image ''b1'' ''t1'' BeforeEntry (Some ''TCS''),
          example_image ''b2'' ''t1'' AfterExit (Some ''TCS''),
          example_image ''b3'' ''t2'' BeforeEntry (Some ''INFY''),
          example_image ''b4'' ''t3'' BeforeEntry None,
          example_image ''b5'' ''t4'' BeforeEntry (Some ''Natco'')]" F_beforeEntry "''tc''"]
  by (simp add: example_image_def example_blob_def chart_image_blob.extend_def symbolMatches_def
        toLowerCase_def toLowerChar_def)

text \<open>
  Claim C5. With a rounding of the product and the quotient that is monotone and leaves 0.5
  and 5 alone, every sequence of operations of the viewer (zoom in, zoom out, reset of the
  zoom, and the two navigations, which reset the zoom) from the initial state, whose zoom is
  1, ends with a zoom from 0.5 to 5. On a zoom within these bounds, zooming in gives the
  smaller of the rounded product with 1.5 and 5, zooming out the larger of the rounded
  quotient by 1.5 and 0.5, the reset 1, and each of them is within the bounds.
\<close>

theorem zoom_within_bounds:
  assumes "rounding rnd"
  shows "1/2 \<le> zoom (viewer_run rnd filtered initial_viewer ops)
       \<and> zoom (viewer_run rnd filtered initial_viewer ops) \<le> 5
       \<and> (1/2 \<le> zoom s \<and> zoom s \<le> 5 \<longrightarrow>
            zoom (handleZoomIn rnd s) = min (rnd (zoom s * (3/2))) 5
          \<and> zoom (handleZoomOut rnd s) = max (rnd (zoom s / (3/2))) (1/2)
          \<and> zoom (resetZoom s) = 1
          \<and> 1/2 \<le> zoom (handleZoomIn rnd s) \<and> zoom (handleZoomIn rnd s) \<le> 5
          \<and> 1/2 \<le> zoom (handleZoomOut rnd s) \<and> zoom (handleZoomOut rnd s) \<le> 5)"
proof -
  have "1/2 \<le> zoom initial_viewer" "zoom initial_viewer \<le> 5" by (simp_all add: initial_viewer_def)
  then have r: "1/2 \<le> zoom (viewer_run rnd filtered initial_viewer ops)
       \<and> zoom (viewer_run rnd filtered initial_viewer ops) \<le> 5"
    using viewer_run_zoom[OF assms] by blast
  have s: "1/2 \<le> zoom (handleZoomIn rnd s) \<and> zoom (handleZoomIn rnd s) \<le> 5
          \<and> 1/2 \<le> zoom (handleZoomOut rnd s) \<and> zoom (handleZoomOut rnd s) \<le> 5"
    if "1/2 \<le> zoom s \<and> zoom s \<le> 5"
    using viewer_step_zoom[OF assms, of s filtered ZoomIn] viewer_step_zoom[OF assms, of s filtered ZoomOut] that
    by simp
  show ?thesis using r s by (simp add: handleZoomIn_def handleZoomOut_def resetZoom_def)
qed

theorem zoom_within_bounds_witness:
  "rounding (\<lambda>x. x)
 \<and> zoom (viewer_run (\<lambda>x. x) [()] initial_viewer [ZoomIn, ZoomIn, ZoomIn, ZoomIn]) = 5
 \<and> zoom (viewer_run (\<lambda>x. x) [()] initial_viewer [ZoomOut, ZoomOut]) = 1/2
 \<and> 1/2 \<le> zoom (viewer_run (\<lambda>x. x) [()] initial_viewer [ZoomIn, ZoomIn, ZoomIn, ZoomIn, ZoomIn, ZoomOut])
 \<and> zoom (viewer_run (\<lambda>x. x) [()] initial_viewer [ZoomIn, ZoomIn, ZoomIn, ZoomIn, ZoomIn, ZoomOut]) \<le> 5"
proof -
  have h: "rounding (\<lambda>x. x)" by (simp add: rounding_def mono_def)
  show ?thesis
    using h zoom_within_bounds[OF h, of "[()]" "[ZoomIn, ZoomIn, ZoomIn, ZoomIn, ZoomIn, ZoomOut]" initial_viewer]
    by (simp add: viewer_run_def initial_viewer_def handleZoomIn_def handleZoomOut_def)
qed

text \<open>
  Claim C6. \<^verbatim>\<open>navigateNext\<close> changes nothing when the index is at the last image of the
  filtered list or beyond it, \<^verbatim>\<open>navigatePrevious\<close> changes nothing when the index is 0 or
  below, and for a filtered list that is not empty every sequence of operations of the
  viewer from the initial state, whose index is 0, ends with an index from 0 to the length
  of the list less one.
\<close>

theorem navigation_clamped:
  "(int (length filtered) - 1 \<le> currentIndex s \<longrightarrow> navigateNext filtered s = s)
 \<and> (currentIndex s \<le> 0 \<longrightarrow> navigatePrevious filtered s = s)
 \<and> (filtered \<noteq> [] \<longrightarrow>
       0 \<le> currentIndex (viewer_run rnd filtered initial_viewer ops)
     \<and> currentIndex (viewer_run rnd filtered initial_viewer ops) \<le> int (length filtered) - 1)"
proof (intro conjI impI)
  assume "int (length filtered) - 1 \<le> currentIndex s"
  then show "navigateNext filtered s = s" by (simp add: navigateNext_def)
next
  assume "currentIndex s \<le> 0"
  then show "navigatePrevious filtered s = s" by (simp add: navigatePrevious_def)
next
  assume "filtered \<noteq> []"
  then have "0 \<le> currentIndex initial_viewer" "currentIndex initial_viewer \<le> int (length filtered) - 1"
    by (cases filtered; simp add: initial_viewer_def)+
  then show "0 \<le> currentIndex (viewer_run rnd filtered initial_viewer ops)"
    "currentIndex (viewer_run rnd filtered initial_viewer ops) \<le> int (length filtered) - 1"
    using viewer_run_index[of initial_viewer filtered rnd ops] by simp_all
qed

theorem navigation_clamped_witness:
  "navigateNext [''a'', ''b''] \<lparr>currentIndex = 1, zoom = 2, position = (3, 4)\<rparr>
     = \<lparr>currentIndex = 1, zoom = 2, position = (3, 4)\<rparr>
 \<and> navigatePrevious [''a'', ''b''] \<lparr>currentIndex = 0, zoom = 2, position = (3, 4)\<rparr>
     = \<lparr>currentIndex = 0, zoom = 2, position = (3, 4)\<rparr>
 \<and> [''a'', ''b''] \<noteq> []
 \<and> currentIndex (viewer_run (\<lambda>x. x) [''a'', ''b''] initial_viewer
      [NavigatePrevious, NavigateNext, NavigateNext, NavigateNext]) = 1"
  using navigation_clamped[of "[''a'', ''b'']" "\<lparr>currentIndex = 1, zoom = 2, position = (3, 4)\<rparr>" "\<lambda>x. x"
          "[NavigatePrevious, NavigateNext, NavigateNext, NavigateNext]"]
        navigation_clamped[of "[''a'', ''b'']" "\<lparr>currentIndex = 0, zoom = 2, position = (3, 4)\<rparr>" "\<lambda>x. x"
          "[NavigatePrevious, NavigateNext, NavigateNext, NavigateNext]"]
  by (simp add: viewer_run_def initial_viewer_def navigateNext_def navigatePrevious_def resetZoom_def)

end
